theory Spec2Isabelle
  imports Main "HOL-Library.Word" "HOL-Library.Sublist"
begin

section \<open>Data model of Model.cpp\<close>

text \<open>
  Errors are values. The C++ exceptions keep their class and message; \<open>com_exception\<close>
  is what \<open>ThrowIfFailed\<close> throws on a failed HRESULT. \<open>assertion_failure\<close> is a failed
  \<open>assert\<close> in a build with assertions, \<open>access_violation\<close> is a read through a null
  pointer or past the end of an array (undefined behaviour in C++, written out here).
\<close>

datatype error =
    runtime_error string
  | invalid_argument string
  | out_of_range string
  | com_exception
  | assertion_failure
  | access_violation

text \<open>
  A shading effect is known by its address (\<open>IEffect*\<close>); the two flags say whether
  \<open>dynamic_cast<IEffectMatrices*>\<close> and \<open>dynamic_cast<IEffectSkinning*>\<close> succeed on it.
\<close>

record IEffect =
  address :: nat
  IEffectMatrices :: bool
  IEffectSkinning :: bool

datatype D3D_PRIMITIVE_TOPOLOGY =
    D3D_PRIMITIVE_TOPOLOGY_TRIANGLELIST
  | D3D_PRIMITIVE_TOPOLOGY_OTHER nat

datatype DXGI_FORMAT = DXGI_FORMAT_R16_UINT | DXGI_FORMAT_R32_UINT

text \<open>One \<open>D3D11_INPUT_ELEMENT_DESC\<close> is kept by its semantic name only.\<close>

type_synonym D3D11_INPUT_ELEMENT_DESC = string

text \<open>
  Buffers and input layouts are COM pointers: \<open>None\<close> is the null pointer, \<open>Some h\<close> the
  object with handle \<open>h\<close>. \<open>effect\<close> and \<open>vbDecl\<close> are shared pointers, null or not.
\<close>

record ModelMeshPart =
  indexCount :: "32 word"
  startIndex :: "32 word"
  vertexOffset :: "32 word"
  vertexStride :: "32 word"
  primitiveType :: D3D_PRIMITIVE_TOPOLOGY
  indexFormat :: DXGI_FORMAT
  inputLayout :: "nat option"
  indexBuffer :: "nat option"
  vertexBuffer :: "nat option"
  effect :: "IEffect option"
  vbDecl :: "D3D11_INPUT_ELEMENT_DESC list option"
  isAlpha :: bool

record ModelMesh =
  boneIndex :: "32 word"
  meshName :: string
  ccw :: bool
  pmalpha :: bool
  meshParts :: "ModelMeshPart list"
  boneInfluences :: "32 word list"

text \<open>
  Modelled from the spec: \<open>ModelBone\<close> and its sentinel \<open>ModelBone::c_Invalid\<close> are declared
  in Model.h, which is not among the source files. A bone has a name, a parent index and
  sibling/child links; the invalid sentinel is the all-ones 32-bit index.
\<close>

record ModelBone =
  boneName :: string
  parentIndex :: "32 word"
  childIndex :: "32 word"
  siblingIndex :: "32 word"

definition c_Invalid :: "32 word" where
  "c_Invalid = - 1"

text \<open>
  \<open>boneMatrices\<close> is the owned transform array (null or an array); \<open>mEffectCache\<close> is a
  \<open>std::set<IEffect*>\<close>, kept as the increasing sequence of its elements, which is the
  order its iteration visits them in. Matrices are never computed with here, so their
  type is a parameter.
\<close>

record 'm Model =
  meshes :: "ModelMesh list"
  bones :: "ModelBone list"
  boneMatrices :: "'m list option"
  mEffectCache :: "nat list"

subsection \<open>The command stream\<close>

text \<open>The named state objects of \<open>CommonStates\<close>.\<close>

datatype BlendState = Opaque | AlphaBlend | NonPremultiplied

datatype DepthStencilState = DepthDefault | DepthRead

datatype RasterizerState = Wireframe | CullCounterClockwise | CullClockwise

datatype SamplerState = LinearWrap

text \<open>
  Every call the drawing code makes on the device context, on an effect or on the
  custom-state hook is one command; the context is the sequence of commands issued so
  far, oldest first.
\<close>

datatype 'm command =
    IASetInputLayout "nat option"
  | IASetVertexBuffers "nat option" "32 word" "32 word"
  | IASetIndexBuffer "nat option" DXGI_FORMAT
  | Apply IEffect
  | SetCustomState
  | IASetPrimitiveTopology D3D_PRIMITIVE_TOPOLOGY
  | DrawIndexed "32 word" "32 word" "32 word"
  | OMSetBlendState BlendState
  | OMSetDepthStencilState DepthStencilState
  | RSSetState RasterizerState
  | PSSetSamplers "SamplerState list"
  | SetMatrices IEffect 'm 'm 'm
  | SetView IEffect 'm
  | SetProjection IEffect 'm
  | SetWorld IEffect 'm

type_synonym 'm outcome = "error option \<times> 'm command list"

section \<open>ModelMeshPart\<close>

text \<open>
  \<open>ModelMeshPart::Draw\<close>. \<open>ndebug\<close> says whether assertions are compiled out; with a null
  effect the call stops at the assertion, or at the call through the null pointer.
  \<open>setCustomState\<close> says whether the hook is non-empty.
\<close>

definition ModelMeshPart_Draw ::
  "bool \<Rightarrow> 'm command list \<Rightarrow> ModelMeshPart \<Rightarrow> IEffect option \<Rightarrow> nat option \<Rightarrow> bool \<Rightarrow> 'm outcome" where
  "ModelMeshPart_Draw ndebug deviceContext part ieffect iinputLayout setCustomState =
     (let ctx1 = deviceContext @
            [IASetInputLayout iinputLayout,
             IASetVertexBuffers (vertexBuffer part) (vertexStride part) 0,
             IASetIndexBuffer (indexBuffer part) (indexFormat part)]
      in case ieffect of
           None \<Rightarrow> (Some (if ndebug then access_violation else assertion_failure), ctx1)
         | Some e \<Rightarrow>
             (let ctx2 = ctx1 @ [Apply e];
                  ctx3 = (if setCustomState then ctx2 @ [SetCustomState] else ctx2)
              in (None, ctx3 @ [IASetPrimitiveTopology (primitiveType part),
                                DrawIndexed (indexCount part) (startIndex part) (vertexOffset part)])))"

text \<open>
  \<open>D3D11_IA_VERTEX_INPUT_STRUCTURE_ELEMENT_COUNT\<close> is the Direct3D 11 limit on input
  elements, a constant of the platform header.
\<close>

definition D3D11_IA_VERTEX_INPUT_STRUCTURE_ELEMENT_COUNT :: nat where
  "D3D11_IA_VERTEX_INPUT_STRUCTURE_ELEMENT_COUNT = 32"

text \<open>
  \<open>CreateInputLayoutFromEffect\<close> belongs to DirectXHelpers and the device: it is a
  parameter \<open>create\<close>, which from the device state, the effect and the element
  descriptions gives the new layout (\<open>None\<close> for a failed HRESULT) and the device state
  after the call.

  \<open>ModelMeshPart::CreateInputLayout\<close>. \<open>iinputLayout\<close> is the out-pointer: \<open>None\<close> when
  the pointer itself is null, \<open>Some s\<close> when it points to a slot holding \<open>s\<close>. The result
  is the error if any, the slot and the device state after the call.
\<close>

definition ModelMeshPart_CreateInputLayout ::
  "('d \<Rightarrow> IEffect option \<Rightarrow> D3D11_INPUT_ELEMENT_DESC list \<Rightarrow> nat option \<times> 'd) \<Rightarrow> bool \<Rightarrow>
   ModelMeshPart \<Rightarrow> 'd \<Rightarrow> IEffect option \<Rightarrow> nat option option \<Rightarrow>
   error option \<times> nat option option \<times> 'd" where
  "ModelMeshPart_CreateInputLayout create ndebug part d3dDevice ieffect iinputLayout =
     (let out0 = (case iinputLayout of None \<Rightarrow> None | Some s \<Rightarrow> Some None)
      in case vbDecl part of
           None \<Rightarrow>
             (Some (runtime_error ''Model mesh part missing vertex buffer input elements data''),
              out0, d3dDevice)
         | Some decl \<Rightarrow>
             if decl = [] then
               (Some (runtime_error ''Model mesh part missing vertex buffer input elements data''),
                out0, d3dDevice)
             else if length decl > D3D11_IA_VERTEX_INPUT_STRUCTURE_ELEMENT_COUNT then
               (Some (runtime_error ''Model mesh part input layout size is too large for DirectX 11''),
                out0, d3dDevice)
             else
               (case create d3dDevice ieffect decl of
                  (None, dev1) \<Rightarrow> (Some com_exception, out0, dev1)
                | (Some h, dev1) \<Rightarrow>
                    (case out0 of
                       None \<Rightarrow> (if ndebug then None else Some assertion_failure, None, dev1)
                     | Some s \<Rightarrow> (None, Some (Some h), dev1))))"

text \<open>
  \<open>ModelMeshPart::ModifyEffect\<close>. The result is the error if any, the part and the device
  state after the call. \<open>ReleaseAndGetAddressOf\<close> empties \<open>inputLayout\<close> before the layout
  is created.
\<close>

definition ModelMeshPart_ModifyEffect ::
  "('d \<Rightarrow> IEffect option \<Rightarrow> D3D11_INPUT_ELEMENT_DESC list \<Rightarrow> nat option \<times> 'd) \<Rightarrow> bool \<Rightarrow>
   ModelMeshPart \<Rightarrow> 'd \<Rightarrow> IEffect option \<Rightarrow> bool \<Rightarrow>
   error option \<times> ModelMeshPart \<times> 'd" where
  "ModelMeshPart_ModifyEffect create ndebug part d3dDevice ieffect isalpha =
     (case vbDecl part of
        None \<Rightarrow>
          (Some (runtime_error ''Model mesh part missing vertex buffer input elements data''),
           part, d3dDevice)
      | Some decl \<Rightarrow>
          if decl = [] then
            (Some (runtime_error ''Model mesh part missing vertex buffer input elements data''),
             part, d3dDevice)
          else if length decl > D3D11_IA_VERTEX_INPUT_STRUCTURE_ELEMENT_COUNT then
            (Some (runtime_error ''Model mesh part input layout size is too large for DirectX 11''),
             part, d3dDevice)
          else if \<not> ndebug \<and> ieffect = None then
            (Some assertion_failure, part, d3dDevice)
          else
            (let part1 = part\<lparr>effect := ieffect, isAlpha := isalpha\<rparr>
             in case create d3dDevice (effect part1) decl of
                  (None, dev1) \<Rightarrow> (Some com_exception, part1\<lparr>inputLayout := None\<rparr>, dev1)
                | (Some h, dev1) \<Rightarrow> (None, part1\<lparr>inputLayout := Some h\<rparr>, dev1)))"

section \<open>ModelMesh\<close>

text \<open>\<open>ModelMesh::PrepareForRendering\<close>: four state-setting commands, and no failure.\<close>

definition ModelMesh_PrepareForRendering ::
  "'m command list \<Rightarrow> ModelMesh \<Rightarrow> bool \<Rightarrow> bool \<Rightarrow> 'm command list" where
  "ModelMesh_PrepareForRendering deviceContext mesh alpha wireframe =
     (let (blendState, depthStencilState) =
            (if alpha then
               (if pmalpha mesh then (AlphaBlend, DepthRead) else (NonPremultiplied, DepthRead))
             else (Opaque, DepthDefault))
      in deviceContext @
           [OMSetBlendState blendState,
            OMSetDepthStencilState depthStencilState,
            (if wireframe then RSSetState Wireframe
             else RSSetState (if ccw mesh then CullCounterClockwise else CullClockwise)),
            PSSetSamplers [LinearWrap, LinearWrap]])"

text \<open>
  \<open>ModelMesh::Draw\<close>: the loop over \<open>meshParts\<close>, the context threaded through. The
  vectors hold non-null parts and meshes, as the code asserts.
\<close>

fun ModelMesh_Draw_parts ::
  "bool \<Rightarrow> 'm command list \<Rightarrow> 'm \<Rightarrow> 'm \<Rightarrow> 'm \<Rightarrow> bool \<Rightarrow> bool \<Rightarrow> ModelMeshPart list \<Rightarrow> 'm outcome" where
  "ModelMesh_Draw_parts ndebug ctx world view projection alpha setCustomState [] = (None, ctx)"
| "ModelMesh_Draw_parts ndebug ctx world view projection alpha setCustomState (part # rest) =
     (if isAlpha part \<noteq> alpha then
        ModelMesh_Draw_parts ndebug ctx world view projection alpha setCustomState rest
      else
        (let ctx1 = (case effect part of
                       None \<Rightarrow> ctx
                     | Some e \<Rightarrow>
                         if IEffectMatrices e then ctx @ [SetMatrices e world view projection]
                         else ctx)
         in case ModelMeshPart_Draw ndebug ctx1 part (effect part) (inputLayout part) setCustomState of
              (Some err, ctx2) \<Rightarrow> (Some err, ctx2)
            | (None, ctx2) \<Rightarrow>
                ModelMesh_Draw_parts ndebug ctx2 world view projection alpha setCustomState rest))"

definition ModelMesh_Draw ::
  "bool \<Rightarrow> 'm command list \<Rightarrow> ModelMesh \<Rightarrow> 'm \<Rightarrow> 'm \<Rightarrow> 'm \<Rightarrow> bool \<Rightarrow> bool \<Rightarrow> 'm outcome" where
  "ModelMesh_Draw ndebug deviceContext mesh world view projection alpha setCustomState =
     ModelMesh_Draw_parts ndebug deviceContext world view projection alpha setCustomState
       (meshParts mesh)"

text \<open>
  A read of \<open>boneTransforms[i]\<close>: through a null pointer or past the end of the array it
  is undefined behaviour, written \<open>access_violation\<close>.
\<close>

definition read_transform :: "'m list option \<Rightarrow> nat \<Rightarrow> error + 'm" where
  "read_transform boneTransforms i =
     (case boneTransforms of
        None \<Rightarrow> Inl access_violation
      | Some xs \<Rightarrow> if i < length xs then Inr (xs ! i) else Inl access_violation)"

text \<open>
  The body of the loop of \<open>ModelMesh::DrawSkinned\<close> for one part that matches the pass,
  up to the call of \<open>part->Draw\<close>: view and projection for a matrix-capable effect, then
  the bone-influence check for a skinning effect, or else the world matrix for a
  matrix-capable one. (\<open>DebugTrace\<close> writes to the debugger only.)
\<close>

definition ModelMesh_DrawSkinned_setup ::
  "'m command list \<Rightarrow> ModelMesh \<Rightarrow> nat \<Rightarrow> 'm list option \<Rightarrow> 'm \<Rightarrow> 'm \<Rightarrow> ModelMeshPart \<Rightarrow> 'm outcome" where
  "ModelMesh_DrawSkinned_setup ctx mesh nbones boneTransforms view projection part =
     (let imatrices = (case effect part of
                         None \<Rightarrow> None
                       | Some e \<Rightarrow> if IEffectMatrices e then Some e else None);
          iskinning = (case effect part of
                         None \<Rightarrow> None
                       | Some e \<Rightarrow> if IEffectSkinning e then Some e else None);
          ctx1 = (case imatrices of
                    None \<Rightarrow> ctx
                  | Some e \<Rightarrow> ctx @ [SetView e view, SetProjection e projection])
      in case iskinning of
           Some s \<Rightarrow>
             if boneInfluences mesh = [] then
               (Some (runtime_error ''Skinning a model requires bone influences''), ctx1)
             else (None, ctx1)
         | None \<Rightarrow>
             (case imatrices of
                Some e \<Rightarrow>
                  (case (if boneIndex mesh \<noteq> c_Invalid \<and> unat (boneIndex mesh) < nbones
                         then read_transform boneTransforms (unat (boneIndex mesh))
                         else read_transform boneTransforms 0) of
                     Inl err \<Rightarrow> (Some err, ctx1)
                   | Inr w \<Rightarrow> (None, ctx1 @ [SetWorld e w]))
              | None \<Rightarrow> (None, ctx1)))"

fun ModelMesh_DrawSkinned_parts ::
  "bool \<Rightarrow> 'm command list \<Rightarrow> ModelMesh \<Rightarrow> nat \<Rightarrow> 'm list option \<Rightarrow> 'm \<Rightarrow> 'm \<Rightarrow> bool \<Rightarrow> bool \<Rightarrow>
   ModelMeshPart list \<Rightarrow> 'm outcome" where
  "ModelMesh_DrawSkinned_parts ndebug ctx mesh nbones boneTransforms view projection alpha
     setCustomState [] = (None, ctx)"
| "ModelMesh_DrawSkinned_parts ndebug ctx mesh nbones boneTransforms view projection alpha
     setCustomState (part # rest) =
     (if isAlpha part \<noteq> alpha then
        ModelMesh_DrawSkinned_parts ndebug ctx mesh nbones boneTransforms view projection alpha
          setCustomState rest
      else
        (case ModelMesh_DrawSkinned_setup ctx mesh nbones boneTransforms view projection part of
           (Some err, ctx1) \<Rightarrow> (Some err, ctx1)
         | (None, ctx1) \<Rightarrow>
             (case ModelMeshPart_Draw ndebug ctx1 part (effect part) (inputLayout part)
                     setCustomState of
                (Some err, ctx2) \<Rightarrow> (Some err, ctx2)
              | (None, ctx2) \<Rightarrow>
                  ModelMesh_DrawSkinned_parts ndebug ctx2 mesh nbones boneTransforms view
                    projection alpha setCustomState rest)))"

text \<open>\<open>ModelMesh::DrawSkinned\<close>: \<open>nbones\<close> is the count, \<open>boneTransforms\<close> the pointer.\<close>

definition ModelMesh_DrawSkinned ::
  "bool \<Rightarrow> 'm command list \<Rightarrow> ModelMesh \<Rightarrow> nat \<Rightarrow> 'm list option \<Rightarrow> 'm \<Rightarrow> 'm \<Rightarrow> bool \<Rightarrow> bool \<Rightarrow>
   'm outcome" where
  "ModelMesh_DrawSkinned ndebug deviceContext mesh nbones boneTransforms view projection alpha
     setCustomState =
     (if nbones = 0 \<or> boneTransforms = None then
        (Some (invalid_argument ''Bone transforms array required''), deviceContext)
      else
        ModelMesh_DrawSkinned_parts ndebug deviceContext mesh nbones boneTransforms view
          projection alpha setCustomState (meshParts mesh))"

section \<open>Model\<close>

text \<open>
  \<open>Model::Draw\<close> with a world matrix. Its two loops over \<open>meshes\<close> differ in the pass
  flag only, which is the first argument of the loop here.
\<close>

fun Model_Draw_meshes ::
  "bool \<Rightarrow> bool \<Rightarrow> 'm command list \<Rightarrow> 'm \<Rightarrow> 'm \<Rightarrow> 'm \<Rightarrow> bool \<Rightarrow> bool \<Rightarrow> ModelMesh list \<Rightarrow> 'm outcome" where
  "Model_Draw_meshes alpha ndebug ctx world view projection wireframe setCustomState [] =
     (None, ctx)"
| "Model_Draw_meshes alpha ndebug ctx world view projection wireframe setCustomState
     (mesh # rest) =
     (case ModelMesh_Draw ndebug (ModelMesh_PrepareForRendering ctx mesh alpha wireframe) mesh
             world view projection alpha setCustomState of
        (Some err, ctx1) \<Rightarrow> (Some err, ctx1)
      | (None, ctx1) \<Rightarrow>
          Model_Draw_meshes alpha ndebug ctx1 world view projection wireframe setCustomState rest)"

definition Model_Draw ::
  "bool \<Rightarrow> 'm command list \<Rightarrow> 'm Model \<Rightarrow> 'm \<Rightarrow> 'm \<Rightarrow> 'm \<Rightarrow> bool \<Rightarrow> bool \<Rightarrow> 'm outcome" where
  "Model_Draw ndebug deviceContext model world view projection wireframe setCustomState =
     (case Model_Draw_meshes False ndebug deviceContext world view projection wireframe
             setCustomState (meshes model) of
        (Some err, ctx1) \<Rightarrow> (Some err, ctx1)
      | (None, ctx1) \<Rightarrow>
          Model_Draw_meshes True ndebug ctx1 world view projection wireframe setCustomState
            (meshes model))"

text \<open>
  \<open>Model::Draw\<close> with a transform array. The world matrix of a mesh is read from the
  array before \<open>mesh->Draw\<close> is called with it.
\<close>

fun Model_Draw_bones_meshes ::
  "bool \<Rightarrow> bool \<Rightarrow> 'm command list \<Rightarrow> nat \<Rightarrow> 'm list option \<Rightarrow> 'm \<Rightarrow> 'm \<Rightarrow> bool \<Rightarrow> bool \<Rightarrow>
   ModelMesh list \<Rightarrow> 'm outcome" where
  "Model_Draw_bones_meshes alpha ndebug ctx nbones boneTransforms view projection wireframe
     setCustomState [] = (None, ctx)"
| "Model_Draw_bones_meshes alpha ndebug ctx nbones boneTransforms view projection wireframe
     setCustomState (mesh # rest) =
     (let ctx1 = ModelMesh_PrepareForRendering ctx mesh alpha wireframe
      in case (if boneIndex mesh \<noteq> c_Invalid \<and> unat (boneIndex mesh) < nbones
               then read_transform boneTransforms (unat (boneIndex mesh))
               else read_transform boneTransforms 0) of
           Inl err \<Rightarrow> (Some err, ctx1)
         | Inr world \<Rightarrow>
             (case ModelMesh_Draw ndebug ctx1 mesh world view projection alpha setCustomState of
                (Some err, ctx2) \<Rightarrow> (Some err, ctx2)
              | (None, ctx2) \<Rightarrow>
                  Model_Draw_bones_meshes alpha ndebug ctx2 nbones boneTransforms view projection
                    wireframe setCustomState rest))"

definition Model_Draw_bones ::
  "bool \<Rightarrow> 'm command list \<Rightarrow> 'm Model \<Rightarrow> nat \<Rightarrow> 'm list option \<Rightarrow> 'm \<Rightarrow> 'm \<Rightarrow> bool \<Rightarrow> bool \<Rightarrow>
   'm outcome" where
  "Model_Draw_bones ndebug deviceContext model nbones boneTransforms view projection wireframe
     setCustomState =
     (if (nbones = 0 \<or> boneTransforms = None) \<and> bones model = [] then
        (Some (invalid_argument ''Model contains no bones''), deviceContext)
      else
        (let (nbones1, boneTransforms1) =
               (if nbones = 0 \<or> boneTransforms = None
                then (length (bones model), boneMatrices model)
                else (nbones, boneTransforms))
         in case Model_Draw_bones_meshes False ndebug deviceContext nbones1 boneTransforms1 view
                   projection wireframe setCustomState (meshes model) of
              (Some err, ctx1) \<Rightarrow> (Some err, ctx1)
            | (None, ctx1) \<Rightarrow>
                Model_Draw_bones_meshes True ndebug ctx1 nbones1 boneTransforms1 view projection
                  wireframe setCustomState (meshes model)))"

text \<open>
  \<open>Model::DrawSkinned\<close>. It asserts that the pointer is not null before it tests the
  count and the pointer.
\<close>

fun Model_DrawSkinned_meshes ::
  "bool \<Rightarrow> bool \<Rightarrow> 'm command list \<Rightarrow> nat \<Rightarrow> 'm list option \<Rightarrow> 'm \<Rightarrow> 'm \<Rightarrow> bool \<Rightarrow> bool \<Rightarrow>
   ModelMesh list \<Rightarrow> 'm outcome" where
  "Model_DrawSkinned_meshes alpha ndebug ctx nbones boneTransforms view projection wireframe
     setCustomState [] = (None, ctx)"
| "Model_DrawSkinned_meshes alpha ndebug ctx nbones boneTransforms view projection wireframe
     setCustomState (mesh # rest) =
     (case ModelMesh_DrawSkinned ndebug (ModelMesh_PrepareForRendering ctx mesh alpha wireframe)
             mesh nbones boneTransforms view projection alpha setCustomState of
        (Some err, ctx1) \<Rightarrow> (Some err, ctx1)
      | (None, ctx1) \<Rightarrow>
          Model_DrawSkinned_meshes alpha ndebug ctx1 nbones boneTransforms view projection
            wireframe setCustomState rest)"

definition Model_DrawSkinned ::
  "bool \<Rightarrow> 'm command list \<Rightarrow> 'm Model \<Rightarrow> nat \<Rightarrow> 'm list option \<Rightarrow> 'm \<Rightarrow> 'm \<Rightarrow> bool \<Rightarrow> bool \<Rightarrow>
   'm outcome" where
  "Model_DrawSkinned ndebug deviceContext model nbones boneTransforms view projection wireframe
     setCustomState =
     (if \<not> ndebug \<and> boneTransforms = None then (Some assertion_failure, deviceContext)
      else if nbones = 0 \<or> boneTransforms = None then
        (Some (invalid_argument ''Bone transforms array required''), deviceContext)
      else
        (case Model_DrawSkinned_meshes False ndebug deviceContext nbones boneTransforms view
                projection wireframe setCustomState (meshes model) of
           (Some err, ctx1) \<Rightarrow> (Some err, ctx1)
         | (None, ctx1) \<Rightarrow>
             Model_DrawSkinned_meshes True ndebug ctx1 nbones boneTransforms view projection
               wireframe setCustomState (meshes model)))"

text \<open>
  \<open>Model::UpdateEffects\<close>. \<open>set_insert\<close> is \<open>std::set::insert\<close> on the increasing
  sequence. The visitor is called on every element of the cache in turn: the result is
  the sequence of addresses it was called with, and the model with its cache.
\<close>

definition set_insert :: "nat \<Rightarrow> nat list \<Rightarrow> nat list" where
  "set_insert x xs = (if x \<in> set xs then xs else insort x xs)"

fun UpdateEffects_parts :: "nat list \<Rightarrow> ModelMeshPart list \<Rightarrow> nat list" where
  "UpdateEffects_parts cache [] = cache"
| "UpdateEffects_parts cache (part # rest) =
     (case effect part of
        Some e \<Rightarrow> UpdateEffects_parts (set_insert (address e) cache) rest
      | None \<Rightarrow> UpdateEffects_parts cache rest)"

fun UpdateEffects_meshes :: "nat list \<Rightarrow> ModelMesh list \<Rightarrow> nat list" where
  "UpdateEffects_meshes cache [] = cache"
| "UpdateEffects_meshes cache (mesh # rest) =
     UpdateEffects_meshes (UpdateEffects_parts cache (meshParts mesh)) rest"

definition Model_UpdateEffects :: "'m Model \<Rightarrow> nat list \<times> 'm Model" where
  "Model_UpdateEffects model =
     (let model1 = (if mEffectCache model = []
                    then model\<lparr>mEffectCache := UpdateEffects_meshes (mEffectCache model) (meshes model)\<rparr>
                    else model)
      in (mEffectCache model1, model1))"

section \<open>ToneMapPostProcess.cpp\<close>

text \<open>
  The file is compiled in two configurations; \<open>xbox\<close> says whether \<open>_XBOX_ONE\<close> and
  \<open>_TITLE\<close> are both defined.
\<close>

definition PixelShaderCount :: "bool \<Rightarrow> int" where
  "PixelShaderCount xbox = (if xbox then 13 else 8)"

definition ShaderPermutationCount :: "bool \<Rightarrow> int" where
  "ShaderPermutationCount xbox = (if xbox then 24 else 12)"

text \<open>The shader table, each entry by the name of its bytecode array.\<close>

definition pixelShaders :: "bool \<Rightarrow> string list" where
  "pixelShaders xbox =
     [''ToneMap_PSCopy'', ''ToneMap_PSSaturate'', ''ToneMap_PSReinhard'', ''ToneMap_PSFilmic'',
      ''ToneMap_PS_SRGB'', ''ToneMap_PSSaturate_SRGB'', ''ToneMap_PSReinhard_SRGB'',
      ''ToneMap_PSHDR10'']
     @ (if xbox then
          [''ToneMap_PSHDR10_Saturate'', ''ToneMap_PSHDR10_Reinhard'', ''ToneMap_PSHDR10_Filmic'',
           ''ToneMap_PSHDR10_Saturate_SRGB'', ''ToneMap_PSHDR10_Reinhard_SRGB'']
        else [])"

definition pixelShaderIndices :: "bool \<Rightarrow> int list" where
  "pixelShaderIndices xbox =
     [0, 1, 2, 3,
      4, 5, 6, 3,
      7, 7, 7, 7]
     @ (if xbox then
          [8, 8, 9, 10,
           11, 11, 12, 10,
           8, 8, 8, 8]
        else [])"

text \<open>
  Modelled from the spec: the enumerations \<open>Operator\<close> and \<open>TransferFunction\<close> are declared
  in PostProcess.h, which is not among the source files, and the spec leaves them to the
  tone-mapping collaborator. Their values are read off the layout of \<open>pixelShaderIndices\<close>:
  three transfer functions (Linear, Gamma 2.2, ST 2084), each with four operators (none,
  saturate, Reinhard, filmic). The enumerations are plain C++ enums, so a value outside
  the declared range can be passed, which is what the setters test for.
\<close>

definition Operator_None :: int where
  "Operator_None = 0"

definition Operator_Max :: int where
  "Operator_Max = 4"

definition Linear :: int where
  "Linear = 0"

definition ST2084 :: int where
  "ST2084 = 2"

definition TransferFunction_Max :: int where
  "TransferFunction_Max = 3"

definition INT_MAX :: int where
  "INT_MAX = 2147483647"

text \<open>The fields of \<open>ToneMapPostProcess::Impl\<close> that the shader selection reads or sets.\<close>

record Impl =
  op :: int
  func :: int
  mrt :: bool
  mUseConstants :: bool
  mDirtyFlags :: int

definition Impl_init :: Impl where
  "Impl_init = \<lparr>op = Operator_None, func = Linear, mrt = False, mUseConstants = False,
                 mDirtyFlags = INT_MAX\<rparr>"

definition GetCurrentShaderPermutation :: "bool \<Rightarrow> Impl \<Rightarrow> int" where
  "GetCurrentShaderPermutation xbox impl =
     (if xbox then
        (let permutation = (if mrt impl then 12 else 0)
         in permutation + (func impl * Operator_Max) + op impl)
      else (func impl * Operator_Max) + op impl)"

definition SetOperator :: "int \<Rightarrow> Impl \<Rightarrow> error + Impl" where
  "SetOperator v impl =
     (if v < 0 \<or> v \<ge> Operator_Max then Inl (out_of_range ''Tonemap operator not defined'')
      else Inr (impl\<lparr>op := v\<rparr>))"

definition SetConstants :: "bool \<Rightarrow> Impl \<Rightarrow> Impl" where
  "SetConstants v impl = impl\<lparr>mUseConstants := v, mDirtyFlags := INT_MAX\<rparr>"

definition SetTransferFunction :: "int \<Rightarrow> Impl \<Rightarrow> error + Impl" where
  "SetTransferFunction v impl =
     (if v < 0 \<or> v \<ge> TransferFunction_Max then
        Inl (out_of_range ''Electro-optical transfer function not defined'')
      else Inr (SetConstants (if v = ST2084 then True else False) (impl\<lparr>func := v\<rparr>)))"

text \<open>
  The two table lookups of \<open>DeviceResources::GetPixelShader\<close>, each after its assertion:
  the result is the bytecode the shader is created from. A lookup outside a table is
  undefined behaviour, written \<open>access_violation\<close>.
\<close>

definition GetPixelShader :: "bool \<Rightarrow> bool \<Rightarrow> int \<Rightarrow> error + string" where
  "GetPixelShader xbox ndebug permutation =
     (if \<not> ndebug \<and> \<not> (permutation \<ge> 0 \<and> permutation < ShaderPermutationCount xbox) then
        Inl assertion_failure
      else if \<not> (0 \<le> permutation \<and> permutation < int (length (pixelShaderIndices xbox))) then
        Inl access_violation
      else
        (let shaderIndex = pixelShaderIndices xbox ! nat permutation
         in if \<not> ndebug \<and> \<not> (shaderIndex \<ge> 0 \<and> shaderIndex < PixelShaderCount xbox) then
              Inl assertion_failure
            else if \<not> (0 \<le> shaderIndex \<and> shaderIndex < int (length (pixelShaders xbox))) then
              Inl access_violation
            else Inr (pixelShaders xbox ! nat shaderIndex)))"

section \<open>Notions the properties are stated with\<close>

text \<open>The draw calls of a command stream, and the draw call a part issues.\<close>

fun is_draw_call :: "'m command \<Rightarrow> bool" where
  "is_draw_call (DrawIndexed n s v) = True"
| "is_draw_call c = False"

definition draw_calls :: "'m command list \<Rightarrow> 'm command list" where
  "draw_calls cs = filter is_draw_call cs"

definition part_draw_call :: "ModelMeshPart \<Rightarrow> 'm command" where
  "part_draw_call part = DrawIndexed (indexCount part) (startIndex part) (vertexOffset part)"

text \<open>The world matrices pushed into effects, in the order they were pushed.\<close>

fun worlds_pushed :: "'m command list \<Rightarrow> 'm list" where
  "worlds_pushed [] = []"
| "worlds_pushed (SetMatrices e w v p # cs) = w # worlds_pushed cs"
| "worlds_pushed (SetWorld e w # cs) = w # worlds_pushed cs"
| "worlds_pushed (c # cs) = worlds_pushed cs"

text \<open>
  The world matrix of a mesh, in the words of the specification: the first transform for
  the invalid sentinel, the transform at the bone index when that index is within the
  array, and the first transform again when it is not.
\<close>

definition bone_world :: "ModelMesh \<Rightarrow> 'm list \<Rightarrow> 'm" where
  "bone_world mesh transforms =
     (if boneIndex mesh = c_Invalid then transforms ! 0
      else if unat (boneIndex mesh) < length transforms then transforms ! unat (boneIndex mesh)
      else transforms ! 0)"

text \<open>
  Every part has an effect bound, which \<open>ModelMeshPart::Draw\<close> asserts of the effect it is
  given.
\<close>

definition parts_bound :: "ModelMeshPart list \<Rightarrow> bool" where
  "parts_bound parts = list_all (\<lambda>part. effect part \<noteq> None) parts"

definition all_effects_bound :: "'m Model \<Rightarrow> bool" where
  "all_effects_bound model = list_all (\<lambda>mesh. parts_bound (meshParts mesh)) (meshes model)"

definition all_parts :: "'m Model \<Rightarrow> ModelMeshPart list" where
  "all_parts model = concat (map meshParts (meshes model))"

text \<open>
  The commands of one full pass over a mesh sequence: for each mesh in turn its state
  setup, then its own draw for that pass. \<open>world_of\<close> gives the world matrix of a mesh.
\<close>

definition pass_commands ::
  "bool \<Rightarrow> bool \<Rightarrow> (ModelMesh \<Rightarrow> 'm) \<Rightarrow> 'm \<Rightarrow> 'm \<Rightarrow> bool \<Rightarrow> bool \<Rightarrow> ModelMesh list \<Rightarrow> 'm command list" where
  "pass_commands alpha ndebug world_of view projection wireframe setCustomState ms =
     concat (map (\<lambda>mesh.
        ModelMesh_PrepareForRendering [] mesh alpha wireframe
        @ snd (ModelMesh_Draw ndebug [] mesh (world_of mesh) view projection alpha setCustomState))
       ms)"

text \<open>The parts of a mesh into whose effect \<open>DrawSkinned\<close> pushes a world matrix.\<close>

definition takes_world :: "bool \<Rightarrow> ModelMeshPart \<Rightarrow> bool" where
  "takes_world alpha part =
     (isAlpha part = alpha \<and>
      (case effect part of
         None \<Rightarrow> False
       | Some e \<Rightarrow> IEffectMatrices e \<and> \<not> IEffectSkinning e))"

text \<open>
  A mesh \<open>DrawSkinned\<close> can draw to the end: every part has an effect, and a skinning
  effect finds bone influences.
\<close>

definition skinning_ready :: "ModelMesh \<Rightarrow> bool" where
  "skinning_ready mesh =
     list_all (\<lambda>part. case effect part of
                         None \<Rightarrow> False
                       | Some e \<Rightarrow> \<not> IEffectSkinning e \<or> boneInfluences mesh \<noteq> [])
       (meshParts mesh)"

text \<open>The parts before the first skinning part of a pass: bound, and not skinning.\<close>

definition no_skinning_before :: "bool \<Rightarrow> ModelMeshPart list \<Rightarrow> bool" where
  "no_skinning_before alpha parts =
     list_all (\<lambda>part. isAlpha part \<noteq> alpha \<or>
                (case effect part of None \<Rightarrow> False | Some e \<Rightarrow> \<not> IEffectSkinning e))
       parts"

text \<open>
  The two messages with which a vertex-layout descriptor is refused
  (\<open>InvalidConfiguration\<close> in the specification), the message of a skinning effect without
  bone influences (\<open>MissingSkinningData\<close>), and the refused descriptors.
\<close>

definition InvalidConfiguration :: "error \<Rightarrow> bool" where
  "InvalidConfiguration err =
     (err = runtime_error ''Model mesh part missing vertex buffer input elements data'' \<or>
      err = runtime_error ''Model mesh part input layout size is too large for DirectX 11'')"

definition MissingSkinningData :: error where
  "MissingSkinningData = runtime_error ''Skinning a model requires bone influences''"

definition fails_InvalidConfiguration :: "error option \<Rightarrow> bool" where
  "fails_InvalidConfiguration r = (case r of None \<Rightarrow> False | Some err \<Rightarrow> InvalidConfiguration err)"

definition bad_vbDecl :: "ModelMeshPart \<Rightarrow> bool" where
  "bad_vbDecl part =
     (case vbDecl part of
        None \<Rightarrow> True
      | Some decl \<Rightarrow> decl = [] \<or> length decl > D3D11_IA_VERTEX_INPUT_STRUCTURE_ELEMENT_COUNT)"

text \<open>The addresses of the effects bound to the parts of a model, in declaration order.\<close>

definition part_effects :: "ModelMeshPart list \<Rightarrow> nat list" where
  "part_effects parts = concat (map (\<lambda>part. case effect part of None \<Rightarrow> [] | Some e \<Rightarrow> [address e]) parts)"

definition referenced_effects :: "'m Model \<Rightarrow> nat list" where
  "referenced_effects model = concat (map (\<lambda>mesh. part_effects (meshParts mesh)) (meshes model))"

text \<open>The parts of a mesh into whose effect \<open>ModelMesh::Draw\<close> pushes its matrices.\<close>

definition takes_matrices :: "bool \<Rightarrow> ModelMeshPart \<Rightarrow> bool" where
  "takes_matrices alpha part =
     (isAlpha part = alpha \<and>
      (case effect part of None \<Rightarrow> False | Some e \<Rightarrow> IEffectMatrices e))"

section \<open>Sample scenes\<close>

text \<open>
  A model of two meshes, the first with one opaque part and no bone, the second with one
  translucent part on bone 1, over a skeleton of two bones. Matrices are numbers here.
\<close>

definition basicEffect :: IEffect where
  "basicEffect = \<lparr>address = 7, IEffectMatrices = True, IEffectSkinning = False\<rparr>"

definition skinnedEffect :: IEffect where
  "skinnedEffect = \<lparr>address = 9, IEffectMatrices = True, IEffectSkinning = True\<rparr>"

definition opaquePart :: ModelMeshPart where
  "opaquePart =
     \<lparr>indexCount = 3, startIndex = 0, vertexOffset = 0, vertexStride = 32,
      primitiveType = D3D_PRIMITIVE_TOPOLOGY_TRIANGLELIST, indexFormat = DXGI_FORMAT_R16_UINT,
      inputLayout = Some 1, indexBuffer = Some 2, vertexBuffer = Some 3,
      effect = Some basicEffect, vbDecl = Some [''SV_Position''], isAlpha = False\<rparr>"

definition alphaPart :: ModelMeshPart where
  "alphaPart = opaquePart\<lparr>indexCount := 6, startIndex := 3, isAlpha := True\<rparr>"

definition skinnedPart :: ModelMeshPart where
  "skinnedPart = opaquePart\<lparr>indexCount := 9, startIndex := 9, effect := Some skinnedEffect\<rparr>"

definition unboundPart :: ModelMeshPart where
  "unboundPart = opaquePart\<lparr>effect := None, inputLayout := None\<rparr>"

definition undeclaredPart :: ModelMeshPart where
  "undeclaredPart = opaquePart\<lparr>vbDecl := None\<rparr>"

definition opaqueMesh :: ModelMesh where
  "opaqueMesh =
     \<lparr>boneIndex = c_Invalid, meshName = ''hull'', ccw = True, pmalpha = True,
      meshParts = [opaquePart], boneInfluences = []\<rparr>"

definition alphaMesh :: ModelMesh where
  "alphaMesh =
     \<lparr>boneIndex = 1, meshName = ''glass'', ccw = True, pmalpha = False,
      meshParts = [alphaPart], boneInfluences = []\<rparr>"

definition mixedMesh :: ModelMesh where
  "mixedMesh =
     \<lparr>boneIndex = 5, meshName = ''arm'', ccw = False, pmalpha = True,
      meshParts = [opaquePart, skinnedPart, alphaPart], boneInfluences = []\<rparr>"

definition unboundMesh :: ModelMesh where
  "unboundMesh =
     \<lparr>boneIndex = c_Invalid, meshName = ''blank'', ccw = True, pmalpha = True,
      meshParts = [unboundPart], boneInfluences = []\<rparr>"

definition someBone :: ModelBone where
  "someBone = \<lparr>boneName = ''root'', parentIndex = c_Invalid, childIndex = c_Invalid,
                siblingIndex = c_Invalid\<rparr>"

definition twoMeshModel :: "nat Model" where
  "twoMeshModel =
     \<lparr>meshes = [opaqueMesh, alphaMesh], bones = [someBone, someBone],
      boneMatrices = Some [10, 20], mEffectCache = []\<rparr>"

definition bonelessModel :: "nat Model" where
  "bonelessModel = twoMeshModel\<lparr>bones := [], boneMatrices := None\<rparr>"

definition unboundModel :: "nat Model" where
  "unboundModel = \<lparr>meshes = [unboundMesh], bones = [], boneMatrices = None, mEffectCache = []\<rparr>"

text \<open>A device that accepts every layout and hands out the handle 4; its state is a counter.\<close>

definition acceptingDevice :: "nat \<Rightarrow> IEffect option \<Rightarrow> D3D11_INPUT_ELEMENT_DESC list \<Rightarrow> nat option \<times> nat" where
  "acceptingDevice d e decl = (Some 4, Suc d)"

text \<open>
  The model \<open>unboundModel\<close> after a first \<open>UpdateEffects\<close> and a \<open>ModifyEffect\<close> that binds
  \<open>basicEffect\<close> to its only part.
\<close>

definition reboundModel :: "nat Model" where
  "reboundModel =
     (snd (Model_UpdateEffects unboundModel))
       \<lparr>meshes :=
          [unboundMesh\<lparr>meshParts :=
             [fst (snd (ModelMeshPart_ModifyEffect acceptingDevice False unboundPart (0::nat)
                          (Some basicEffect) False))]\<rparr>]\<rparr>"

text \<open>The same model with a third mesh, whose bone index 5 is past the two transforms.\<close>

definition threeMeshModel :: "nat Model" where
  "threeMeshModel = twoMeshModel\<lparr>meshes := [opaqueMesh, alphaMesh, mixedMesh]\<rparr>"

text \<open>A part whose vertex-layout descriptor has 33 elements, one more than the limit.\<close>

definition oversizedPart :: ModelMeshPart where
  "oversizedPart = opaquePart\<lparr>vbDecl := Some (replicate 33 ''TEXCOORD'')\<rparr>"

text \<open>A tone-map configuration with the last operator and the last transfer function.\<close>

definition lastPermutation :: Impl where
  "lastPermutation = Impl_init\<lparr>op := 3, func := 2, mrt := True\<rparr>"

section \<open>The command stream of a draw\<close>

text \<open>
  Drawing only ever appends to the command stream: what a call issues does not depend on
  the commands already there.
\<close>

lemma PrepareForRendering_append:
  "ModelMesh_PrepareForRendering ctx mesh alpha wireframe =
     ctx @ ModelMesh_PrepareForRendering [] mesh alpha wireframe"
  by (simp add: ModelMesh_PrepareForRendering_def)

lemma Part_Draw_bound:
  "ModelMeshPart_Draw ndebug ctx part (Some e) il h =
     (None, ctx @ [IASetInputLayout il,
                   IASetVertexBuffers (vertexBuffer part) (vertexStride part) 0,
                   IASetIndexBuffer (indexBuffer part) (indexFormat part),
                   Apply e]
                @ (if h then [SetCustomState] else [])
                @ [IASetPrimitiveTopology (primitiveType part), part_draw_call part])"
  by (simp add: ModelMeshPart_Draw_def part_draw_call_def)

lemma Part_Draw_unbound:
  "ModelMeshPart_Draw ndebug ctx part None il h =
     (Some (if ndebug then access_violation else assertion_failure),
      ctx @ [IASetInputLayout il,
             IASetVertexBuffers (vertexBuffer part) (vertexStride part) 0,
             IASetIndexBuffer (indexBuffer part) (indexFormat part)])"
  by (simp add: ModelMeshPart_Draw_def)

lemma Draw_parts_append:
  "ModelMesh_Draw_parts ndebug (ctx @ ctx') w v p a h ps =
     (fst (ModelMesh_Draw_parts ndebug ctx' w v p a h ps),
      ctx @ snd (ModelMesh_Draw_parts ndebug ctx' w v p a h ps))"
proof (induction ps arbitrary: ctx')
  case Nil
  show ?case by simp
next
  case (Cons part rest)
  show ?case
  proof (cases "effect part")
    case None
    then show ?thesis by (simp add: Part_Draw_unbound Cons.IH)
  next
    case (Some e)
    then show ?thesis by (simp add: Part_Draw_bound Cons.IH)
  qed
qed

lemma Draw_parts_bound:
  "parts_bound ps \<Longrightarrow> fst (ModelMesh_Draw_parts ndebug ctx w v p a h ps) = None"
proof (induction ps arbitrary: ctx)
  case Nil
  show ?case by simp
next
  case (Cons part rest)
  then show ?case
    by (auto simp: parts_bound_def Part_Draw_bound)
qed

lemma Mesh_Draw_bound:
  "parts_bound (meshParts mesh) \<Longrightarrow>
   ModelMesh_Draw ndebug ctx mesh w v p a h =
     (None, ctx @ snd (ModelMesh_Draw ndebug [] mesh w v p a h))"
  using Draw_parts_append [of ndebug ctx "[]" w v p a h "meshParts mesh"]
    Draw_parts_bound [of "meshParts mesh" ndebug "[]" w v p a h]
  by (simp add: ModelMesh_Draw_def)

lemma Model_Draw_meshes_pass:
  "list_all (\<lambda>mesh. parts_bound (meshParts mesh)) ms \<Longrightarrow>
   Model_Draw_meshes alpha ndebug ctx w v p wire h ms =
     (None, ctx @ pass_commands alpha ndebug (\<lambda>mesh. w) v p wire h ms)"
proof (induction ms arbitrary: ctx)
  case Nil
  show ?case by (simp add: pass_commands_def)
next
  case (Cons mesh rest)
  from Cons.prems have b: "parts_bound (meshParts mesh)"
    and r: "list_all (\<lambda>mesh. parts_bound (meshParts mesh)) rest"
    by simp_all
  have step: "ModelMesh_Draw ndebug (ModelMesh_PrepareForRendering ctx mesh alpha wire) mesh w v p alpha h =
      (None, ctx @ ModelMesh_PrepareForRendering [] mesh alpha wire
                 @ snd (ModelMesh_Draw ndebug [] mesh w v p alpha h))"
    using Mesh_Draw_bound [OF b, of ndebug "ModelMesh_PrepareForRendering ctx mesh alpha wire"]
      PrepareForRendering_append [of ctx mesh alpha wire]
    by simp
  show ?case
    by (simp add: step Cons.IH [OF r] pass_commands_def)
qed

lemma pass_commands_Cons:
  "pass_commands alpha ndebug world_of v p wire h (mesh # rest) =
      ModelMesh_PrepareForRendering [] mesh alpha wire
      @ snd (ModelMesh_Draw ndebug [] mesh (world_of mesh) v p alpha h)
      @ pass_commands alpha ndebug world_of v p wire h rest"
  by (simp add: pass_commands_def)

lemma Mesh_Draw_append:
  "ModelMesh_Draw ndebug ctx mesh w v p a h =
     (fst (ModelMesh_Draw ndebug [] mesh w v p a h),
      ctx @ snd (ModelMesh_Draw ndebug [] mesh w v p a h))"
  using Draw_parts_append [of ndebug ctx "[]" w v p a h "meshParts mesh"]
  by (simp add: ModelMesh_Draw_def)

lemma Model_Draw_meshes_append:
  "Model_Draw_meshes alpha ndebug (ctx @ ctx') w v p wire h ms =
     (fst (Model_Draw_meshes alpha ndebug ctx' w v p wire h ms),
      ctx @ snd (Model_Draw_meshes alpha ndebug ctx' w v p wire h ms))"
proof (induction ms arbitrary: ctx')
  case Nil
  show ?case by simp
next
  case (Cons mesh rest)
  have p: "ModelMesh_PrepareForRendering c mesh alpha wire =
             c @ ModelMesh_PrepareForRendering [] mesh alpha wire" for c :: "'a command list"
    by (rule PrepareForRendering_append)
  have d: "ModelMesh_Draw ndebug c mesh w v p alpha h =
             (fst (ModelMesh_Draw ndebug [] mesh w v p alpha h),
              c @ snd (ModelMesh_Draw ndebug [] mesh w v p alpha h))" for c :: "'a command list"
    by (rule Mesh_Draw_append)
  show ?case
  proof (cases "fst (ModelMesh_Draw ndebug [] mesh w v p alpha h)")
    case None
    show ?thesis
      using Cons.IH [of "ctx' @ ModelMesh_PrepareForRendering [] mesh alpha wire
                          @ snd (ModelMesh_Draw ndebug [] mesh w v p alpha h)"]
      by (simp add: p [of "ctx @ ctx'"] p [of ctx'] d [of "ctx @ ctx' @ _"] d [of "ctx' @ _"] None)
  next
    case (Some err)
    show ?thesis
      by (simp add: p [of "ctx @ ctx'"] p [of ctx'] d [of "ctx @ ctx' @ _"] d [of "ctx' @ _"] Some)
  qed
qed

text \<open>
  Whatever the parts, the loop of one pass issues a beginning of the commands of that
  pass, and all of them when it does not fail.
\<close>

lemma Model_Draw_meshes_prefix:
  "prefix (snd (Model_Draw_meshes alpha ndebug [] w v p wire h ms))
          (pass_commands alpha ndebug (\<lambda>mesh. w) v p wire h ms)
   \<and> (fst (Model_Draw_meshes alpha ndebug [] w v p wire h ms) = None \<longrightarrow>
        snd (Model_Draw_meshes alpha ndebug [] w v p wire h ms) =
          pass_commands alpha ndebug (\<lambda>mesh. w) v p wire h ms)"
proof (induction ms)
  case Nil
  show ?case by (simp add: pass_commands_def)
next
  case (Cons mesh rest)
  let ?P = "ModelMesh_PrepareForRendering [] mesh alpha wire"
  let ?D = "snd (ModelMesh_Draw ndebug [] mesh w v p alpha h)"
  have step: "ModelMesh_Draw ndebug ?P mesh w v p alpha h =
      (fst (ModelMesh_Draw ndebug [] mesh w v p alpha h), ?P @ ?D)"
    by (rule Mesh_Draw_append)
  show ?case
  proof (cases "fst (ModelMesh_Draw ndebug [] mesh w v p alpha h)")
    case (Some err)
    then show ?thesis
      by (simp add: step pass_commands_Cons)
  next
    case None
    have run: "Model_Draw_meshes alpha ndebug [] w v p wire h (mesh # rest) =
            (fst (Model_Draw_meshes alpha ndebug [] w v p wire h rest),
             (?P @ ?D) @ snd (Model_Draw_meshes alpha ndebug [] w v p wire h rest))"
      using Model_Draw_meshes_append [of alpha ndebug "?P @ ?D" "[]" w v p wire h rest]
      by (simp add: step None)
    show ?thesis
      using Cons.IH unfolding run pass_commands_Cons by simp
  qed
qed

lemmas sample_defs = twoMeshModel_def opaqueMesh_def alphaMesh_def opaquePart_def alphaPart_def
  basicEffect_def

section \<open>The two passes of Model::Draw\<close>

text \<open>
  C1. The commands that a rigid-world \<open>Model::Draw\<close> adds to the stream are, for every
  model, commands of the opaque pass followed by commands of the alpha pass: a beginning
  of the opaque pass over all meshes in order (state setup and opaque draw of each mesh),
  and then, only when that pass is complete, a beginning of the alpha pass over all meshes
  in order. So no command of the alpha pass of any mesh comes before a command of the
  opaque pass of a later mesh. When every part has an effect (the assertion of
  \<open>ModelMeshPart::Draw\<close>) the draw succeeds and both passes are complete.
\<close>

theorem Model_Draw_two_passes:
  "(\<exists>opaque alpha.
      snd (Model_Draw ndebug ctx model world view projection wireframe setCustomState) =
        ctx @ opaque @ alpha
      \<and> prefix opaque
          (pass_commands False ndebug (\<lambda>mesh. world) view projection wireframe setCustomState
             (meshes model))
      \<and> prefix alpha
          (pass_commands True ndebug (\<lambda>mesh. world) view projection wireframe setCustomState
             (meshes model))
      \<and> (alpha = [] \<or>
          opaque = pass_commands False ndebug (\<lambda>mesh. world) view projection wireframe
                     setCustomState (meshes model)))
   \<and> (all_effects_bound model \<longrightarrow>
        Model_Draw ndebug ctx model world view projection wireframe setCustomState =
           (None, ctx
              @ pass_commands False ndebug (\<lambda>mesh. world) view projection wireframe setCustomState
                  (meshes model)
              @ pass_commands True ndebug (\<lambda>mesh. world) view projection wireframe setCustomState
                  (meshes model)))"
proof -
  let ?opaque = "snd (Model_Draw_meshes False ndebug [] world view projection wireframe
                        setCustomState (meshes model))"
  let ?alpha = "snd (Model_Draw_meshes True ndebug [] world view projection wireframe
                       setCustomState (meshes model))"
  let ?failed = "fst (Model_Draw_meshes False ndebug [] world view projection wireframe
                        setCustomState (meshes model))"
  have first: "Model_Draw_meshes False ndebug ctx world view projection wireframe setCustomState
                 (meshes model) = (?failed, ctx @ ?opaque)"
    using Model_Draw_meshes_append [of False ndebug ctx "[]" world view projection wireframe
        setCustomState "meshes model"]
    by simp
  have second: "snd (Model_Draw_meshes True ndebug (ctx @ ?opaque) world view projection wireframe
                  setCustomState (meshes model)) = ctx @ ?opaque @ ?alpha"
    using Model_Draw_meshes_append [of True ndebug "ctx @ ?opaque" "[]" world view projection
        wireframe setCustomState "meshes model"]
    by simp
  note po = Model_Draw_meshes_prefix [of False ndebug world view projection wireframe
      setCustomState "meshes model"]
  note pa = Model_Draw_meshes_prefix [of True ndebug world view projection wireframe
      setCustomState "meshes model"]
  have issued: "snd (Model_Draw ndebug ctx model world view projection wireframe setCustomState) =
      ctx @ ?opaque @ (if ?failed = None then ?alpha else [])"
    by (cases ?failed) (simp_all add: Model_Draw_def first second)
  have any: "\<exists>opaque alpha.
      snd (Model_Draw ndebug ctx model world view projection wireframe setCustomState) =
        ctx @ opaque @ alpha
      \<and> prefix opaque
          (pass_commands False ndebug (\<lambda>mesh. world) view projection wireframe setCustomState
             (meshes model))
      \<and> prefix alpha
          (pass_commands True ndebug (\<lambda>mesh. world) view projection wireframe setCustomState
             (meshes model))
      \<and> (alpha = [] \<or>
          opaque = pass_commands False ndebug (\<lambda>mesh. world) view projection wireframe
                     setCustomState (meshes model))"
  proof (intro exI conjI)
    show "snd (Model_Draw ndebug ctx model world view projection wireframe setCustomState) =
      ctx @ ?opaque @ (if ?failed = None then ?alpha else [])"
      by (rule issued)
    show "prefix ?opaque (pass_commands False ndebug (\<lambda>mesh. world) view projection wireframe
            setCustomState (meshes model))"
      using po by simp
    show "prefix (if ?failed = None then ?alpha else [])
            (pass_commands True ndebug (\<lambda>mesh. world) view projection wireframe setCustomState
               (meshes model))"
      using pa by simp
    show "(if ?failed = None then ?alpha else []) = [] \<or>
          ?opaque = pass_commands False ndebug (\<lambda>mesh. world) view projection wireframe
                     setCustomState (meshes model)"
      using po by simp
  qed
  have bound: "Model_Draw ndebug ctx model world view projection wireframe setCustomState =
           (None, ctx
              @ pass_commands False ndebug (\<lambda>mesh. world) view projection wireframe setCustomState
                  (meshes model)
              @ pass_commands True ndebug (\<lambda>mesh. world) view projection wireframe setCustomState
                  (meshes model))"
    if "all_effects_bound model"
    using that
    by (simp add: Model_Draw_def all_effects_bound_def Model_Draw_meshes_pass)
  show ?thesis
    using any bound by blast
qed

text \<open>
  The sample model of an opaque-only and an alpha-only mesh: both meshes are set up for the
  opaque pass, and the opaque part drawn, before either is set up for the alpha pass.
\<close>

theorem Model_Draw_two_passes_witness:
  "all_effects_bound twoMeshModel \<and>
   Model_Draw False [] twoMeshModel 1 2 3 False False =
     (None,
      [OMSetBlendState Opaque, OMSetDepthStencilState DepthDefault,
       RSSetState CullCounterClockwise, PSSetSamplers [LinearWrap, LinearWrap],
       SetMatrices basicEffect 1 2 3,
       IASetInputLayout (Some 1), IASetVertexBuffers (Some 3) 32 0,
       IASetIndexBuffer (Some 2) DXGI_FORMAT_R16_UINT, Apply basicEffect,
       IASetPrimitiveTopology D3D_PRIMITIVE_TOPOLOGY_TRIANGLELIST, DrawIndexed 3 0 0,
       OMSetBlendState Opaque, OMSetDepthStencilState DepthDefault,
       RSSetState CullCounterClockwise, PSSetSamplers [LinearWrap, LinearWrap],
       OMSetBlendState AlphaBlend, OMSetDepthStencilState DepthRead,
       RSSetState CullCounterClockwise, PSSetSamplers [LinearWrap, LinearWrap],
       OMSetBlendState NonPremultiplied, OMSetDepthStencilState DepthRead,
       RSSetState CullCounterClockwise, PSSetSamplers [LinearWrap, LinearWrap],
       SetMatrices basicEffect 1 2 3,
       IASetInputLayout (Some 1), IASetVertexBuffers (Some 3) 32 0,
       IASetIndexBuffer (Some 2) DXGI_FORMAT_R16_UINT, Apply basicEffect,
       IASetPrimitiveTopology D3D_PRIMITIVE_TOPOLOGY_TRIANGLELIST, DrawIndexed 6 3 0])"
proof -
  have b: "all_effects_bound twoMeshModel"
    by (simp add: all_effects_bound_def parts_bound_def sample_defs)
  have "Model_Draw False [] twoMeshModel 1 2 3 False False =
          (None, []
             @ pass_commands False False (\<lambda>mesh. 1) 2 3 False False (meshes twoMeshModel)
             @ pass_commands True False (\<lambda>mesh. 1) 2 3 False False (meshes twoMeshModel))"
    using b Model_Draw_two_passes [of False "[]" twoMeshModel 1 2 3 False False]
    by blast
  then show ?thesis
    using b
    by (simp add: pass_commands_def ModelMesh_PrepareForRendering_def ModelMesh_Draw_def
          ModelMeshPart_Draw_def sample_defs)
qed

section \<open>Translucency partitioning\<close>

lemma draw_calls_append: "draw_calls (a @ b) = draw_calls a @ draw_calls b"
  by (simp add: draw_calls_def)

lemma draw_calls_Prepare: "draw_calls (ModelMesh_PrepareForRendering [] mesh alpha wire) = []"
  by (simp add: draw_calls_def ModelMesh_PrepareForRendering_def split: if_splits)

lemma draw_calls_Draw_parts:
  "parts_bound ps \<Longrightarrow>
   draw_calls (snd (ModelMesh_Draw_parts ndebug ctx w v p a h ps)) =
     draw_calls ctx @ map part_draw_call [q \<leftarrow> ps. isAlpha q = a]"
proof (induction ps arbitrary: ctx)
  case Nil
  show ?case by simp
next
  case (Cons part rest)
  from Cons.prems obtain e where e: "effect part = Some e" and r: "parts_bound rest"
    by (auto simp: parts_bound_def)
  show ?case
    by (simp add: e Part_Draw_bound Cons.IH [OF r] draw_calls_append)
       (simp add: draw_calls_def part_draw_call_def)
qed

lemma draw_calls_Mesh_Draw:
  "parts_bound (meshParts mesh) \<Longrightarrow>
   draw_calls (snd (ModelMesh_Draw ndebug [] mesh w v p a h)) =
     map part_draw_call [q \<leftarrow> meshParts mesh. isAlpha q = a]"
  using draw_calls_Draw_parts [of "meshParts mesh" ndebug "[]" w v p a h]
  by (simp add: ModelMesh_Draw_def draw_calls_def)

lemma draw_calls_pass:
  "list_all (\<lambda>mesh. parts_bound (meshParts mesh)) ms \<Longrightarrow>
   draw_calls (pass_commands alpha ndebug world_of v p wire h ms) =
     map part_draw_call [q \<leftarrow> concat (map meshParts ms). isAlpha q = alpha]"
proof (induction ms)
  case Nil
  show ?case by (simp add: pass_commands_def draw_calls_def)
next
  case (Cons mesh rest)
  from Cons.prems have b: "parts_bound (meshParts mesh)"
    and r: "list_all (\<lambda>mesh. parts_bound (meshParts mesh)) rest"
    by simp_all
  show ?case
    by (simp add: pass_commands_Cons draw_calls_append draw_calls_Prepare Cons.IH [OF r]
          draw_calls_Mesh_Draw [OF b])
qed

text \<open>
  C3. In a model whose parts all have an effect, with \<open>M\<close> opaque parts and \<open>N\<close>
  translucent ones: the loop of one pass over the meshes issues exactly the draw calls of
  the parts whose flag matches the pass, one per part and in declaration order, so \<open>M\<close> in
  the opaque pass and \<open>N\<close> in the alpha pass; a full \<open>Model::Draw\<close> issues the opaque
  ones and then the translucent ones; and \<open>ModelMesh::Draw\<close> of each mesh issues the draw
  calls of its matching parts in their declared order and none for the others.
\<close>

theorem draws_partitioned_by_translucency:
  assumes "all_effects_bound model"
  shows "draw_calls (snd (Model_Draw_meshes alpha ndebug [] world view projection wireframe
                            setCustomState (meshes model))) =
           map part_draw_call [q \<leftarrow> all_parts model. isAlpha q = alpha]
       \<and> length (draw_calls (snd (Model_Draw_meshes alpha ndebug [] world view projection wireframe
                            setCustomState (meshes model)))) =
           length [q \<leftarrow> all_parts model. isAlpha q = alpha]
       \<and> draw_calls (snd (Model_Draw ndebug [] model world view projection wireframe
                            setCustomState)) =
           map part_draw_call [q \<leftarrow> all_parts model. \<not> isAlpha q]
           @ map part_draw_call [q \<leftarrow> all_parts model. isAlpha q]
       \<and> (\<forall>mesh \<in> set (meshes model).
             draw_calls (snd (ModelMesh_Draw ndebug [] mesh world view projection alpha
                                setCustomState)) =
               map part_draw_call [q \<leftarrow> meshParts mesh. isAlpha q = alpha])"
proof -
  from assms have b: "list_all (\<lambda>mesh. parts_bound (meshParts mesh)) (meshes model)"
    by (simp add: all_effects_bound_def)
  have pass: "draw_calls (snd (Model_Draw_meshes a ndebug [] world view projection wireframe
                            setCustomState (meshes model))) =
           map part_draw_call [q \<leftarrow> all_parts model. isAlpha q = a]" for a
    by (simp add: Model_Draw_meshes_pass [OF b] draw_calls_pass [OF b] all_parts_def)
  have whole: "draw_calls (snd (Model_Draw ndebug [] model world view projection wireframe
                            setCustomState)) =
           map part_draw_call [q \<leftarrow> all_parts model. \<not> isAlpha q]
           @ map part_draw_call [q \<leftarrow> all_parts model. isAlpha q]"
    by (simp add: Model_Draw_def Model_Draw_meshes_pass [OF b] draw_calls_append
          draw_calls_pass [OF b] all_parts_def)
  have each: "\<forall>mesh \<in> set (meshes model).
             draw_calls (snd (ModelMesh_Draw ndebug [] mesh world view projection alpha
                                setCustomState)) =
               map part_draw_call [q \<leftarrow> meshParts mesh. isAlpha q = alpha]"
    using b by (simp add: list_all_iff draw_calls_Mesh_Draw)
  show ?thesis
    using pass [of alpha] whole each by simp
qed

theorem draws_partitioned_by_translucency_witness:
  "all_effects_bound twoMeshModel
   \<and> draw_calls (snd (Model_Draw_meshes False False [] (1::nat) 2 3 False False (meshes twoMeshModel))) =
       [DrawIndexed 3 0 0]
   \<and> draw_calls (snd (Model_Draw_meshes True False [] (1::nat) 2 3 False False (meshes twoMeshModel))) =
       [DrawIndexed 6 3 0]
   \<and> draw_calls (snd (Model_Draw False [] twoMeshModel 1 2 3 False False)) =
       [DrawIndexed 3 0 0, DrawIndexed 6 3 0]"
proof -
  have b: "all_effects_bound twoMeshModel"
    by (simp add: all_effects_bound_def parts_bound_def sample_defs)
  show ?thesis
    using b
      draws_partitioned_by_translucency [OF b, where alpha = False and ndebug = False
        and world = 1 and view = 2 and projection = 3 and wireframe = False
        and setCustomState = False]
      draws_partitioned_by_translucency [OF b, where alpha = True and ndebug = False
        and world = 1 and view = 2 and projection = 3 and wireframe = False
        and setCustomState = False]
    by (simp add: all_parts_def part_draw_call_def sample_defs)
qed

section \<open>Resolution of the world matrix\<close>

lemmas sample_defs3 = threeMeshModel_def mixedMesh_def skinnedPart_def skinnedEffect_def sample_defs

lemma worlds_pushed_append: "worlds_pushed (a @ b) = worlds_pushed a @ worlds_pushed b"
  by (induction a rule: worlds_pushed.induct) simp_all

lemma worlds_pushed_Prepare: "worlds_pushed (ModelMesh_PrepareForRendering [] mesh alpha wire) = []"
  by (simp add: ModelMesh_PrepareForRendering_def split: if_splits)

text \<open>The read of the code, with its two-way test, is the three-way rule of the specification.\<close>

lemma read_bone_world:
  "xs \<noteq> [] \<Longrightarrow>
   (if boneIndex mesh \<noteq> c_Invalid \<and> unat (boneIndex mesh) < length xs
    then read_transform (Some xs) (unat (boneIndex mesh))
    else read_transform (Some xs) 0) = Inr (bone_world mesh xs)"
  by (auto simp: read_transform_def bone_world_def)

lemma Model_Draw_bones_meshes_pass:
  assumes "xs \<noteq> []"
  shows "list_all (\<lambda>mesh. parts_bound (meshParts mesh)) ms \<Longrightarrow>
   Model_Draw_bones_meshes alpha ndebug ctx (length xs) (Some xs) v p wire h ms =
     (None, ctx @ pass_commands alpha ndebug (\<lambda>mesh. bone_world mesh xs) v p wire h ms)"
proof (induction ms arbitrary: ctx)
  case Nil
  show ?case by (simp add: pass_commands_def)
next
  case (Cons mesh rest)
  from Cons.prems have b: "parts_bound (meshParts mesh)"
    and r: "list_all (\<lambda>mesh. parts_bound (meshParts mesh)) rest"
    by simp_all
  have step: "ModelMesh_Draw ndebug (ModelMesh_PrepareForRendering ctx mesh alpha wire) mesh
                (bone_world mesh xs) v p alpha h =
      (None, ctx @ ModelMesh_PrepareForRendering [] mesh alpha wire
                 @ snd (ModelMesh_Draw ndebug [] mesh (bone_world mesh xs) v p alpha h))"
    using Mesh_Draw_bound [OF b, of ndebug "ModelMesh_PrepareForRendering ctx mesh alpha wire"]
      PrepareForRendering_append [of ctx mesh alpha wire]
    by simp
  show ?case
    by (simp only: Model_Draw_bones_meshes.simps Let_def read_bone_world [OF assms])
       (simp add: step Cons.IH [OF r] pass_commands_Cons)
qed

lemma worlds_Draw_parts:
  "parts_bound ps \<Longrightarrow>
   worlds_pushed (snd (ModelMesh_Draw_parts ndebug ctx w v p a h ps)) =
     worlds_pushed ctx @ replicate (length (filter (takes_matrices a) ps)) w"
proof (induction ps arbitrary: ctx)
  case Nil
  show ?case by simp
next
  case (Cons part rest)
  from Cons.prems obtain e where e: "effect part = Some e" and r: "parts_bound rest"
    by (auto simp: parts_bound_def)
  show ?case
    by (simp add: e Part_Draw_bound Cons.IH [OF r] worlds_pushed_append takes_matrices_def
          part_draw_call_def)
qed

lemma worlds_pass:
  "list_all (\<lambda>mesh. parts_bound (meshParts mesh)) ms \<Longrightarrow>
   worlds_pushed (pass_commands alpha ndebug world_of v p wire h ms) =
     concat (map (\<lambda>mesh. replicate (length (filter (takes_matrices alpha) (meshParts mesh)))
                            (world_of mesh)) ms)"
proof (induction ms)
  case Nil
  show ?case by (simp add: pass_commands_def)
next
  case (Cons mesh rest)
  from Cons.prems have b: "parts_bound (meshParts mesh)"
    and r: "list_all (\<lambda>mesh. parts_bound (meshParts mesh)) rest"
    by simp_all
  show ?case
    using worlds_Draw_parts [OF b, of ndebug "[]" "world_of mesh" v p alpha h]
    by (simp add: pass_commands_Cons worlds_pushed_append worlds_pushed_Prepare Cons.IH [OF r]
          ModelMesh_Draw_def)
qed

lemma DrawSkinned_setup_bound:
  assumes "xs \<noteq> []" and "effect part = Some e"
  shows "ModelMesh_DrawSkinned_setup ctx mesh (length xs) (Some xs) v p part =
     (if IEffectSkinning e \<and> boneInfluences mesh = [] then
        (Some (runtime_error ''Skinning a model requires bone influences''),
         ctx @ (if IEffectMatrices e then [SetView e v, SetProjection e p] else []))
      else
        (None, ctx @ (if IEffectMatrices e then [SetView e v, SetProjection e p] else [])
                   @ (if IEffectMatrices e \<and> \<not> IEffectSkinning e
                      then [SetWorld e (bone_world mesh xs)] else [])))"
  by (simp only: ModelMesh_DrawSkinned_setup_def Let_def read_bone_world [OF assms(1)] assms(2))
     simp

lemma worlds_DrawSkinned_parts:
  assumes "xs \<noteq> []"
  shows "list_all (\<lambda>part. case effect part of
                         None \<Rightarrow> False
                       | Some e \<Rightarrow> \<not> IEffectSkinning e \<or> boneInfluences mesh \<noteq> []) ps \<Longrightarrow>
   fst (ModelMesh_DrawSkinned_parts ndebug ctx mesh (length xs) (Some xs) v p a h ps) = None \<and>
   worlds_pushed (snd (ModelMesh_DrawSkinned_parts ndebug ctx mesh (length xs) (Some xs) v p a h ps)) =
     worlds_pushed ctx @ replicate (length (filter (takes_world a) ps)) (bone_world mesh xs)"
proof (induction ps arbitrary: ctx)
  case Nil
  show ?case by simp
next
  case (Cons part rest)
  from Cons.prems obtain e where e: "effect part = Some e"
    and ok: "\<not> IEffectSkinning e \<or> boneInfluences mesh \<noteq> []"
    and r: "list_all (\<lambda>part. case effect part of
                         None \<Rightarrow> False
                       | Some e \<Rightarrow> \<not> IEffectSkinning e \<or> boneInfluences mesh \<noteq> []) rest"
    by (auto split: option.splits)
  show ?case
    using ok
    by (auto simp add: e DrawSkinned_setup_bound [OF assms e] Part_Draw_bound Cons.IH [OF r]
          worlds_pushed_append takes_world_def part_draw_call_def)
qed

text \<open>
  C2. With a non-empty transform array of length \<open>n\<close>, the world matrix pushed for a mesh
  is the one of the resolution rule \<open>bone_world\<close>: the first transform when the bone index
  is the invalid sentinel, the transform at the bone index \<open>k\<close> when \<open>k < n\<close>, and the first
  transform when \<open>k \<ge> n\<close>. The skeletal \<open>Model::Draw\<close> of a model whose parts all have an
  effect pushes, in each pass and for each mesh in turn, that matrix once for every
  matching part with a matrix-capable effect; \<open>ModelMesh::DrawSkinned\<close> of a mesh it can
  draw to the end pushes that matrix once for every matching part whose effect is
  matrix-capable and not skinning; neither pushes any other world matrix.
\<close>

theorem world_matrix_resolution:
  assumes "transforms \<noteq> []"
  shows "(all_effects_bound model \<longrightarrow>
            worlds_pushed (snd (Model_Draw_bones ndebug [] model (length transforms)
                                  (Some transforms) view projection wireframe setCustomState)) =
              concat (map (\<lambda>mesh. replicate (length (filter (takes_matrices False) (meshParts mesh)))
                                     (bone_world mesh transforms)) (meshes model))
              @ concat (map (\<lambda>mesh. replicate (length (filter (takes_matrices True) (meshParts mesh)))
                                       (bone_world mesh transforms)) (meshes model)))
       \<and> (skinning_ready mesh \<longrightarrow>
            worlds_pushed (snd (ModelMesh_DrawSkinned ndebug [] mesh (length transforms)
                                  (Some transforms) view projection alpha setCustomState)) =
              replicate (length (filter (takes_world alpha) (meshParts mesh)))
                (bone_world mesh transforms))"
proof -
  have model_part: "worlds_pushed (snd (Model_Draw_bones ndebug [] model (length transforms)
                                  (Some transforms) view projection wireframe setCustomState)) =
              concat (map (\<lambda>mesh. replicate (length (filter (takes_matrices False) (meshParts mesh)))
                                     (bone_world mesh transforms)) (meshes model))
              @ concat (map (\<lambda>mesh. replicate (length (filter (takes_matrices True) (meshParts mesh)))
                                       (bone_world mesh transforms)) (meshes model))"
    if "all_effects_bound model"
  proof -
    from that have b: "list_all (\<lambda>mesh. parts_bound (meshParts mesh)) (meshes model)"
      by (simp add: all_effects_bound_def)
    show ?thesis
      using assms
      by (simp add: Model_Draw_bones_def Model_Draw_bones_meshes_pass [OF assms b]
            worlds_pushed_append worlds_pass [OF b])
  qed
  have mesh_part: "worlds_pushed (snd (ModelMesh_DrawSkinned ndebug [] mesh (length transforms)
                                  (Some transforms) view projection alpha setCustomState)) =
              replicate (length (filter (takes_world alpha) (meshParts mesh)))
                (bone_world mesh transforms)"
    if "skinning_ready mesh"
    using that assms
      worlds_DrawSkinned_parts [OF assms, of mesh "meshParts mesh" ndebug "[]" view projection
        alpha setCustomState]
    by (simp add: ModelMesh_DrawSkinned_def skinning_ready_def)
  show ?thesis
    using model_part mesh_part by blast
qed

text \<open>
  The three cases on the transforms 10 and 20: the mesh without a bone and the mesh on
  bone 5 get the first transform, the mesh on bone 1 gets the second.
\<close>

theorem world_matrix_resolution_witness:
  "[10, 20 :: nat] \<noteq> []
   \<and> all_effects_bound threeMeshModel
   \<and> bone_world opaqueMesh [10, 20 :: nat] = 10
   \<and> bone_world alphaMesh [10, 20 :: nat] = 20
   \<and> bone_world mixedMesh [10, 20 :: nat] = 10
   \<and> worlds_pushed (snd (Model_Draw_bones False [] threeMeshModel 2 (Some [10, 20]) 2 3 False False)) =
       [10, 10, 10, 20, 10]
   \<and> skinning_ready alphaMesh
   \<and> worlds_pushed (snd (ModelMesh_DrawSkinned False [] alphaMesh 2 (Some [10, 20 :: nat]) 2 3 True False)) =
       [20]"
proof -
  have ne: "[10, 20 :: nat] \<noteq> []" by simp
  have b: "all_effects_bound threeMeshModel"
    by (simp add: all_effects_bound_def parts_bound_def sample_defs3)
  have r: "skinning_ready alphaMesh"
    by (simp add: skinning_ready_def sample_defs3)
  have w: "bone_world opaqueMesh [10, 20 :: nat] = 10" "bone_world alphaMesh [10, 20 :: nat] = 20"
    "bone_world mixedMesh [10, 20 :: nat] = 10"
    by (simp_all add: bone_world_def sample_defs3 c_Invalid_def)
  have two: "length [10, 20 :: nat] = 2" by simp
  show ?thesis
    using b r w
      world_matrix_resolution [OF ne, where model = threeMeshModel and mesh = alphaMesh
        and ndebug = False and view = 2 and projection = 3 and wireframe = False
        and setCustomState = False and alpha = True]
    unfolding two
    by (simp add: takes_matrices_def takes_world_def sample_defs3)
qed

section \<open>The skeletal draw without a transform array\<close>

text \<open>
  C6. When the skeletal \<open>Model::Draw\<close> is called with a zero count or a null array: if
  the model has no bones the call fails with \<open>invalid_argument\<close> (\<open>InvalidArgument\<close>) and
  the command stream is as it was; otherwise the call is the call with the model's own
  bone count and transform array, and when that array has one transform per bone and all
  parts have an effect it runs the two passes to the end, each mesh drawn with the world
  matrix resolved from the model's own array.
\<close>

theorem Model_Draw_substitutes_own_bones:
  assumes "nbones = 0 \<or> boneTransforms = None"
  shows "(bones model = [] \<longrightarrow>
            Model_Draw_bones ndebug ctx model nbones boneTransforms view projection wireframe
              setCustomState =
              (Some (invalid_argument ''Model contains no bones''), ctx))
       \<and> (bones model \<noteq> [] \<longrightarrow>
            Model_Draw_bones ndebug ctx model nbones boneTransforms view projection wireframe
              setCustomState =
            Model_Draw_bones ndebug ctx model (length (bones model)) (boneMatrices model) view
              projection wireframe setCustomState)
       \<and> (bones model \<noteq> [] \<and> boneMatrices model = Some own \<and> length own = length (bones model)
            \<and> all_effects_bound model \<longrightarrow>
            Model_Draw_bones ndebug ctx model nbones boneTransforms view projection wireframe
              setCustomState =
              (None, ctx
                 @ pass_commands False ndebug (\<lambda>mesh. bone_world mesh own) view projection
                     wireframe setCustomState (meshes model)
                 @ pass_commands True ndebug (\<lambda>mesh. bone_world mesh own) view projection
                     wireframe setCustomState (meshes model)))"
proof -
  have none: "Model_Draw_bones ndebug ctx model nbones boneTransforms view projection wireframe
              setCustomState =
              (Some (invalid_argument ''Model contains no bones''), ctx)"
    if "bones model = []"
    using assms that by (simp add: Model_Draw_bones_def)
  have own_call: "Model_Draw_bones ndebug ctx model nbones boneTransforms view projection wireframe
              setCustomState =
            Model_Draw_bones ndebug ctx model (length (bones model)) (boneMatrices model) view
              projection wireframe setCustomState"
    if "bones model \<noteq> []"
    using assms that by (auto simp: Model_Draw_bones_def)
  have passes: "Model_Draw_bones ndebug ctx model nbones boneTransforms view projection wireframe
              setCustomState =
              (None, ctx
                 @ pass_commands False ndebug (\<lambda>mesh. bone_world mesh own) view projection
                     wireframe setCustomState (meshes model)
                 @ pass_commands True ndebug (\<lambda>mesh. bone_world mesh own) view projection
                     wireframe setCustomState (meshes model))"
    if nb: "bones model \<noteq> []" and bm: "boneMatrices model = Some own"
      and len: "length own = length (bones model)" and ab: "all_effects_bound model"
  proof -
    from nb len have ne: "own \<noteq> []" by auto
    from ab have b: "list_all (\<lambda>mesh. parts_bound (meshParts mesh)) (meshes model)"
      by (simp add: all_effects_bound_def)
    from own_call [OF nb] have "Model_Draw_bones ndebug ctx model nbones boneTransforms view
        projection wireframe setCustomState =
        Model_Draw_bones ndebug ctx model (length own) (Some own) view projection wireframe
          setCustomState"
      by (simp add: bm len)
    also have "\<dots> = (None, ctx
                 @ pass_commands False ndebug (\<lambda>mesh. bone_world mesh own) view projection
                     wireframe setCustomState (meshes model)
                 @ pass_commands True ndebug (\<lambda>mesh. bone_world mesh own) view projection
                     wireframe setCustomState (meshes model))"
      using ne by (simp add: Model_Draw_bones_def Model_Draw_bones_meshes_pass [OF ne b])
    finally show ?thesis .
  qed
  show ?thesis
    using none own_call passes by blast
qed

text \<open>
  The boneless sample model is refused with nothing issued; the sample model with two
  bones draws its opaque mesh with its own first transform and its translucent mesh,
  which is on bone 1, with its own second one.
\<close>

theorem Model_Draw_substitutes_own_bones_witness:
  "((0::nat) = 0 \<or> (None :: nat list option) = None)
   \<and> bones bonelessModel = []
   \<and> Model_Draw_bones False [] bonelessModel 0 None 2 3 False False =
       (Some (invalid_argument ''Model contains no bones''), [])
   \<and> bones twoMeshModel \<noteq> []
   \<and> boneMatrices twoMeshModel = Some [10, 20]
   \<and> all_effects_bound twoMeshModel
   \<and> fst (Model_Draw_bones False [] twoMeshModel 0 None 2 3 False False) = None
   \<and> worlds_pushed (snd (Model_Draw_bones False [] twoMeshModel 0 None 2 3 False False)) = [10, 20]
   \<and> draw_calls (snd (Model_Draw_bones False [] twoMeshModel 0 None 2 3 False False)) =
       [DrawIndexed 3 0 0, DrawIndexed 6 3 0]"
proof -
  have h: "(0::nat) = 0 \<or> (None :: nat list option) = None" by simp
  have b: "all_effects_bound twoMeshModel"
    by (simp add: all_effects_bound_def parts_bound_def sample_defs)
  have m: "bones twoMeshModel \<noteq> []" "boneMatrices twoMeshModel = Some [10, 20]"
    "length [10, 20 :: nat] = length (bones twoMeshModel)" "meshes twoMeshModel = [opaqueMesh, alphaMesh]"
    by (simp_all add: twoMeshModel_def)
  have e: "bones bonelessModel = []"
    by (simp add: bonelessModel_def)
  have A: "Model_Draw_bones False [] bonelessModel 0 None 2 3 False False =
       (Some (invalid_argument ''Model contains no bones''), [])"
    using e
      Model_Draw_substitutes_own_bones [OF h, where model = bonelessModel and ndebug = False
        and ctx = "[]" and view = 2 and projection = 3 and wireframe = False
        and setCustomState = False]
    by blast
  have B: "Model_Draw_bones False [] twoMeshModel 0 None 2 3 False False =
       (None, []
          @ pass_commands False False (\<lambda>mesh. bone_world mesh [10, 20]) 2 3 False False
              (meshes twoMeshModel)
          @ pass_commands True False (\<lambda>mesh. bone_world mesh [10, 20]) 2 3 False False
              (meshes twoMeshModel))"
    using b m(1,2,3)
      Model_Draw_substitutes_own_bones [OF h, where model = twoMeshModel and ndebug = False
        and ctx = "[]" and view = 2 and projection = 3 and wireframe = False
        and setCustomState = False and own = "[10, 20]"]
    by blast
  show ?thesis
    using h b m(1,2) e
    by (simp add: A B m(4) bone_world_def c_Invalid_def pass_commands_def ModelMesh_PrepareForRendering_def ModelMesh_Draw_def
          ModelMeshPart_Draw_def draw_calls_def opaqueMesh_def alphaMesh_def opaquePart_def
          alphaPart_def basicEffect_def)
qed

section \<open>Failures of the skinned draw\<close>

text \<open>
  C5, as the code has it. With a zero count or a null array \<open>ModelMesh::DrawSkinned\<close>
  fails with \<open>invalid_argument\<close> (\<open>InvalidArgument\<close>). \<open>Model::DrawSkinned\<close> fails too: with
  \<open>invalid_argument\<close> when the count is zero and the array is not null, or when assertions
  are compiled out; with a null array in a build with assertions it stops at
  \<open>assert(boneTransforms != nullptr)\<close> instead. In every case the command stream is as it
  was, so no draw call is issued, and the model's own bone data plays no part.
\<close>

theorem DrawSkinned_requires_transforms:
  assumes "nbones = 0 \<or> boneTransforms = None"
  shows "ModelMesh_DrawSkinned ndebug ctx mesh nbones boneTransforms view projection alpha
           setCustomState =
           (Some (invalid_argument ''Bone transforms array required''), ctx)
       \<and> Model_DrawSkinned ndebug ctx model nbones boneTransforms view projection wireframe
           setCustomState =
           (Some (if \<not> ndebug \<and> boneTransforms = None then assertion_failure
                  else invalid_argument ''Bone transforms array required''), ctx)"
  using assms
  by (auto simp: ModelMesh_DrawSkinned_def Model_DrawSkinned_def)

text \<open>
  A zero count with an array, in a build with assertions, and a null array with a count,
  in a build without.
\<close>

theorem DrawSkinned_requires_transforms_witness:
  "((0::nat) = 0 \<or> Some [10, 20 :: nat] = None)
   \<and> ModelMesh_DrawSkinned False [] opaqueMesh 0 (Some [10, 20 :: nat]) 2 3 False False =
       (Some (invalid_argument ''Bone transforms array required''), [])
   \<and> Model_DrawSkinned False [] twoMeshModel 0 (Some [10, 20]) 2 3 False False =
       (Some (invalid_argument ''Bone transforms array required''), [])
   \<and> ((2::nat) = 0 \<or> (None :: nat list option) = None)
   \<and> ModelMesh_DrawSkinned True [] opaqueMesh 2 (None :: nat list option) 2 3 False False =
       (Some (invalid_argument ''Bone transforms array required''), [])
   \<and> Model_DrawSkinned True [] twoMeshModel 2 None 2 3 False False =
       (Some (invalid_argument ''Bone transforms array required''), [])"
proof -
  have h0: "(0::nat) = 0 \<or> Some [10, 20 :: nat] = None" by simp
  have h1: "(2::nat) = 0 \<or> (None :: nat list option) = None" by simp
  show ?thesis
    using h0 h1
      DrawSkinned_requires_transforms [OF h0, where ndebug = False and ctx = "[]"
        and mesh = opaqueMesh and model = twoMeshModel and view = 2 and projection = 3
        and alpha = False and wireframe = False and setCustomState = False]
      DrawSkinned_requires_transforms [OF h1, where ndebug = True and ctx = "[]"
        and mesh = opaqueMesh and model = twoMeshModel and view = 2 and projection = 3
        and alpha = False and wireframe = False and setCustomState = False]
    by simp
qed

text \<open>
  In a build with assertions, \<open>Model::DrawSkinned\<close> with a null array and the count 2
  stops at its assertion: the failure is not \<open>invalid_argument\<close>.
\<close>

theorem Model_DrawSkinned_null_array_asserts:
  "Model_DrawSkinned False [] twoMeshModel 2 None 2 3 False False = (Some assertion_failure, [])
   \<and> fst (Model_DrawSkinned False [] twoMeshModel 2 None 2 3 False False) \<noteq>
       Some (invalid_argument ''Bone transforms array required'')"
  by (simp add: Model_DrawSkinned_def)

lemma draw_calls_snoc_state [simp]:
  "draw_calls (cs @ [SetView e v, SetProjection e p]) = draw_calls cs"
  "draw_calls (cs @ [SetView e v, SetProjection e p, SetWorld e w]) = draw_calls cs"
  by (simp_all add: draw_calls_def)

lemma DrawSkinned_parts_stops:
  assumes "xs \<noteq> []" and "boneInfluences mesh = []" and "isAlpha part = a"
    and "effect part = Some e" and "IEffectSkinning e"
  shows "no_skinning_before a before \<Longrightarrow>
    fst (ModelMesh_DrawSkinned_parts ndebug ctx mesh (length xs) (Some xs) v p a h
           (before @ part # after)) = Some MissingSkinningData
    \<and> draw_calls (snd (ModelMesh_DrawSkinned_parts ndebug ctx mesh (length xs) (Some xs) v p a h
           (before @ part # after))) =
        draw_calls ctx @ map part_draw_call [q \<leftarrow> before. isAlpha q = a]"
proof (induction before arbitrary: ctx)
  case Nil
  show ?case
    using assms(2,3,5)
    by (simp add: DrawSkinned_setup_bound [OF assms(1,4)] MissingSkinningData_def draw_calls_append)
       (simp add: draw_calls_def)
next
  case (Cons q rest)
  from Cons.prems have r: "no_skinning_before a rest"
    by (simp add: no_skinning_before_def)
  show ?case
  proof (cases "isAlpha q = a")
    case False
    then show ?thesis using Cons.IH [OF r] by simp
  next
    case True
    with Cons.prems obtain e' where e': "effect q = Some e'" and ns: "\<not> IEffectSkinning e'"
      by (auto simp: no_skinning_before_def split: option.splits)
    show ?thesis
      using True ns
      by (simp add: DrawSkinned_setup_bound [OF assms(1) e'] Part_Draw_bound e'
            Cons.IH [OF r] draw_calls_append)
         (simp add: draw_calls_def part_draw_call_def)
  qed
qed

text \<open>
  C4, as the code has it. \<open>ModelMesh::DrawSkinned\<close> tests for bone influences part by
  part, inside its loop. Drawn with a non-empty transform array and no bone influences, a
  mesh fails with \<open>MissingSkinningData\<close> at the first part of the current pass whose effect
  is skinning-capable: before the draw call of that part and of every part after it, and
  after the draw calls of the matching parts declared before it, which are issued. When
  no part before it matches the pass, no draw call precedes the failure.
\<close>

theorem MissingSkinningData_at_first_skinning_part:
  assumes "transforms \<noteq> []" and "boneInfluences mesh = []"
    and "meshParts mesh = before @ part # after"
    and "isAlpha part = alpha" and "effect part = Some e" and "IEffectSkinning e"
    and "no_skinning_before alpha before"
  shows "fst (ModelMesh_DrawSkinned ndebug ctx mesh (length transforms) (Some transforms) view
                projection alpha setCustomState) = Some MissingSkinningData
       \<and> draw_calls (snd (ModelMesh_DrawSkinned ndebug ctx mesh (length transforms)
                (Some transforms) view projection alpha setCustomState)) =
           draw_calls ctx @ map part_draw_call [q \<leftarrow> before. isAlpha q = alpha]"
  using assms(1) DrawSkinned_parts_stops [OF assms(1,2,4,5,6,7), of ndebug ctx view projection
      setCustomState after]
  by (simp add: ModelMesh_DrawSkinned_def assms(3))

text \<open>
  The sample mesh of an opaque part, a skinned opaque part and a translucent part, without
  bone influences: its opaque pass fails at the second part, after the draw call of the
  first.
\<close>

theorem MissingSkinningData_at_first_skinning_part_witness:
  "[10, 20 :: nat] \<noteq> [] \<and> boneInfluences mixedMesh = []
   \<and> meshParts mixedMesh = [opaquePart] @ skinnedPart # [alphaPart]
   \<and> isAlpha skinnedPart = False \<and> effect skinnedPart = Some skinnedEffect
   \<and> IEffectSkinning skinnedEffect \<and> no_skinning_before False [opaquePart]
   \<and> fst (ModelMesh_DrawSkinned False [] mixedMesh 2 (Some [10, 20 :: nat]) 2 3 False False) =
       Some MissingSkinningData
   \<and> draw_calls (snd (ModelMesh_DrawSkinned False [] mixedMesh 2 (Some [10, 20 :: nat]) 2 3 False
                        False)) = [DrawIndexed 3 0 0]"
proof -
  have h: "[10, 20 :: nat] \<noteq> []" "boneInfluences mixedMesh = []"
    "meshParts mixedMesh = [opaquePart] @ skinnedPart # [alphaPart]"
    "isAlpha skinnedPart = False" "effect skinnedPart = Some skinnedEffect"
    "IEffectSkinning skinnedEffect" "no_skinning_before False [opaquePart]"
    by (simp_all add: no_skinning_before_def sample_defs3)
  have two: "length [10, 20 :: nat] = 2" by simp
  have d: "draw_calls ([] :: nat command list) = []" "part_draw_call opaquePart = DrawIndexed 3 0 0"
    "isAlpha opaquePart = False"
    by (simp_all add: draw_calls_def part_draw_call_def opaquePart_def)
  show ?thesis
    using h MissingSkinningData_at_first_skinning_part [OF h, where ndebug = False and ctx = "[]"
        and view = 2 and projection = 3 and setCustomState = False]
    unfolding two
    by (simp add: d)
qed

text \<open>
  The same mesh shows the two ways the failure is later or absent: in its opaque pass one
  draw call is issued before \<open>MissingSkinningData\<close> is raised, and its alpha pass, in which
  the skinned part is skipped, runs to the end without failure.
\<close>

theorem DrawSkinned_draws_before_MissingSkinningData:
  "boneInfluences mixedMesh = []
   \<and> meshParts mixedMesh = [opaquePart, skinnedPart, alphaPart]
   \<and> effect skinnedPart = Some skinnedEffect \<and> IEffectSkinning skinnedEffect
   \<and> fst (ModelMesh_DrawSkinned False [] mixedMesh 2 (Some [10, 20 :: nat]) 2 3 False False) =
       Some MissingSkinningData
   \<and> length (draw_calls (snd (ModelMesh_DrawSkinned False [] mixedMesh 2 (Some [10, 20 :: nat]) 2 3
                                 False False))) = 1
   \<and> draw_calls (snd (ModelMesh_DrawSkinned False [] mixedMesh 2 (Some [10, 20 :: nat]) 2 3
                         False False)) \<noteq> []
   \<and> fst (ModelMesh_DrawSkinned False [] mixedMesh 2 (Some [10, 20 :: nat]) 2 3 True False) = None"
  by (simp add: ModelMesh_DrawSkinned_def ModelMesh_DrawSkinned_setup_def ModelMeshPart_Draw_def
        read_transform_def MissingSkinningData_def draw_calls_def c_Invalid_def sample_defs3)

section \<open>The effect cache of UpdateEffects\<close>

lemma set_set_insert: "set (set_insert x xs) = insert x (set xs)"
  by (auto simp: set_insert_def set_insort_key)

lemma distinct_set_insert: "distinct xs \<Longrightarrow> distinct (set_insert x xs)"
  by (simp add: set_insert_def distinct_insort)

lemma sorted_set_insert: "sorted xs \<Longrightarrow> sorted (set_insert x xs)"
  by (simp add: set_insert_def sorted_insort)

lemma UpdateEffects_parts_set:
  "set (UpdateEffects_parts cache ps) = set cache \<union> set (part_effects ps)"
  by (induction ps arbitrary: cache)
     (auto simp: part_effects_def set_set_insert split: option.splits)

lemma UpdateEffects_parts_distinct:
  "distinct cache \<Longrightarrow> distinct (UpdateEffects_parts cache ps)"
  by (induction ps arbitrary: cache) (auto simp: distinct_set_insert split: option.splits)

lemma UpdateEffects_parts_sorted:
  "sorted cache \<Longrightarrow> sorted (UpdateEffects_parts cache ps)"
  by (induction ps arbitrary: cache) (auto simp: sorted_set_insert split: option.splits)

lemma UpdateEffects_meshes_set:
  "set (UpdateEffects_meshes cache ms) =
     set cache \<union> set (concat (map (\<lambda>mesh. part_effects (meshParts mesh)) ms))"
  by (induction ms arbitrary: cache) (auto simp: UpdateEffects_parts_set)

lemma UpdateEffects_meshes_distinct:
  "distinct cache \<Longrightarrow> distinct (UpdateEffects_meshes cache ms)"
  by (induction ms arbitrary: cache) (auto simp: UpdateEffects_parts_distinct)

lemma UpdateEffects_meshes_sorted:
  "sorted cache \<Longrightarrow> sorted (UpdateEffects_meshes cache ms)"
  by (induction ms arbitrary: cache) (auto simp: UpdateEffects_parts_sorted)

text \<open>
  C7, as the code has it. The cache is built by a call of \<open>UpdateEffects\<close> that finds it
  empty, and is kept once it is not empty. On a model whose cache is still empty, the call
  visits every effect instance bound to a part of a mesh, each exactly once (in the order
  of the set), and when it has visited at least one, the next call visits the very same
  instances whatever the meshes and their bindings have become in between. (When the
  first call finds no effect the cache stays empty, and the next call builds it from the
  bindings of that moment.)
\<close>

theorem UpdateEffects_cache:
  assumes "mEffectCache model = []"
  shows "distinct (fst (Model_UpdateEffects model))
       \<and> sorted (fst (Model_UpdateEffects model))
       \<and> set (fst (Model_UpdateEffects model)) = set (referenced_effects model)
       \<and> (fst (Model_UpdateEffects model) \<noteq> [] \<longrightarrow>
            fst (Model_UpdateEffects ((snd (Model_UpdateEffects model))\<lparr>meshes := later\<rparr>)) =
              fst (Model_UpdateEffects model))"
proof -
  have v: "fst (Model_UpdateEffects model) = UpdateEffects_meshes [] (meshes model)"
    using assms by (simp add: Model_UpdateEffects_def)
  have c: "mEffectCache (snd (Model_UpdateEffects model)) = UpdateEffects_meshes [] (meshes model)"
    using assms by (simp add: Model_UpdateEffects_def)
  have d: "distinct (fst (Model_UpdateEffects model))"
    by (simp add: v UpdateEffects_meshes_distinct)
  have o: "sorted (fst (Model_UpdateEffects model))"
    by (simp add: v UpdateEffects_meshes_sorted)
  have s: "set (fst (Model_UpdateEffects model)) = set (referenced_effects model)"
    by (simp add: v UpdateEffects_meshes_set referenced_effects_def)
  have again: "fst (Model_UpdateEffects ((snd (Model_UpdateEffects model))\<lparr>meshes := later\<rparr>)) =
              fst (Model_UpdateEffects model)"
    if "fst (Model_UpdateEffects model) \<noteq> []"
    using that c by (simp add: v Model_UpdateEffects_def [of "_\<lparr>meshes := later\<rparr>"])
  show ?thesis
    using d o s again by blast
qed

text \<open>
  The two parts of the sample model share one effect, which is visited once; after the
  meshes are replaced by one that also uses the skinned effect, the second call still
  visits that one effect only.
\<close>

theorem UpdateEffects_cache_witness:
  "mEffectCache twoMeshModel = []
   \<and> referenced_effects twoMeshModel = [7, 7]
   \<and> fst (Model_UpdateEffects twoMeshModel) = [7]
   \<and> referenced_effects ((snd (Model_UpdateEffects twoMeshModel))\<lparr>meshes := [mixedMesh]\<rparr>) = [7, 9, 7]
   \<and> fst (Model_UpdateEffects ((snd (Model_UpdateEffects twoMeshModel))\<lparr>meshes := [mixedMesh]\<rparr>)) = [7]"
proof -
  have h: "mEffectCache twoMeshModel = []"
    by (simp add: twoMeshModel_def)
  have v: "fst (Model_UpdateEffects twoMeshModel) = [7]"
    by (simp add: Model_UpdateEffects_def set_insert_def sample_defs)
  have r: "referenced_effects twoMeshModel = [7, 7]"
    "referenced_effects ((snd (Model_UpdateEffects twoMeshModel))\<lparr>meshes := [mixedMesh]\<rparr>) = [7, 9, 7]"
    by (simp_all add: referenced_effects_def part_effects_def sample_defs3)
  show ?thesis
    using h r UpdateEffects_cache [OF h, of "[mixedMesh]"]
    by (simp add: v)
qed

text \<open>
  The sample model whose only part has no effect: the first call visits nothing and leaves
  the cache empty; after \<open>ModifyEffect\<close> has bound an effect to the part, the second call on
  the same model builds the cache and visits that effect.
\<close>

theorem UpdateEffects_rebuilds_empty_cache:
  "mEffectCache unboundModel = []
   \<and> fst (Model_UpdateEffects unboundModel) = []
   \<and> mEffectCache reboundModel = []
   \<and> referenced_effects reboundModel = [address basicEffect]
   \<and> fst (Model_UpdateEffects reboundModel) = [address basicEffect]
   \<and> set (fst (Model_UpdateEffects reboundModel)) \<noteq> set (fst (Model_UpdateEffects unboundModel))"
  by (simp add: Model_UpdateEffects_def reboundModel_def unboundModel_def unboundMesh_def
        unboundPart_def opaquePart_def basicEffect_def ModelMeshPart_ModifyEffect_def
        acceptingDevice_def D3D11_IA_VERTEX_INPUT_STRUCTURE_ELEMENT_COUNT_def set_insert_def
        referenced_effects_def part_effects_def)

section \<open>The vertex-layout descriptor\<close>

text \<open>
  C8. \<open>ModelMeshPart::CreateInputLayout\<close> fails with one of the two
  \<open>InvalidConfiguration\<close> errors exactly when the vertex-layout descriptor of the part is
  absent, empty or longer than the limit on input elements; and then the device is as it
  was, no layout having been asked of it, and the output slot, when the caller gave
  one, holds the null pointer.
\<close>

theorem CreateInputLayout_InvalidConfiguration:
  "fails_InvalidConfiguration
     (fst (ModelMeshPart_CreateInputLayout create ndebug part d3dDevice ieffect iinputLayout)) =
     bad_vbDecl part
   \<and> (bad_vbDecl part \<longrightarrow>
        snd (ModelMeshPart_CreateInputLayout create ndebug part d3dDevice ieffect iinputLayout) =
          ((case iinputLayout of None \<Rightarrow> None | Some s \<Rightarrow> Some None), d3dDevice))"
proof (cases "vbDecl part")
  case None
  then show ?thesis
    by (simp add: ModelMeshPart_CreateInputLayout_def Let_def bad_vbDecl_def fails_InvalidConfiguration_def
          InvalidConfiguration_def)
next
  case (Some decl)
  show ?thesis
  proof (cases "decl = [] \<or> length decl > D3D11_IA_VERTEX_INPUT_STRUCTURE_ELEMENT_COUNT")
    case True
    then show ?thesis
      by (auto simp: Some ModelMeshPart_CreateInputLayout_def Let_def bad_vbDecl_def
            fails_InvalidConfiguration_def InvalidConfiguration_def)
  next
    case False
    then have good: "\<not> bad_vbDecl part"
      by (simp add: Some bad_vbDecl_def)
    obtain r dev1 where c: "create d3dDevice ieffect decl = (r, dev1)"
      by (cases "create d3dDevice ieffect decl")
    show ?thesis
      using False good
      by (cases r; cases iinputLayout)
         (simp_all add: Some c ModelMeshPart_CreateInputLayout_def Let_def fails_InvalidConfiguration_def
            InvalidConfiguration_def)
  qed
qed

text \<open>
  A part without descriptor and a part with 33 elements are refused, the slot of the
  caller nulled and the device untouched; the sample part with one element gets its layout.
\<close>

theorem CreateInputLayout_InvalidConfiguration_witness:
  "bad_vbDecl undeclaredPart \<and> bad_vbDecl oversizedPart \<and> \<not> bad_vbDecl opaquePart
   \<and> ModelMeshPart_CreateInputLayout acceptingDevice False undeclaredPart 0 (Some basicEffect)
        (Some (Some 8)) =
       (Some (runtime_error ''Model mesh part missing vertex buffer input elements data''),
        Some None, 0)
   \<and> ModelMeshPart_CreateInputLayout acceptingDevice False oversizedPart 0 (Some basicEffect)
        (Some (Some 8)) =
       (Some (runtime_error ''Model mesh part input layout size is too large for DirectX 11''),
        Some None, 0)
   \<and> ModelMeshPart_CreateInputLayout acceptingDevice False opaquePart 0 (Some basicEffect)
        (Some (Some 8)) = (None, Some (Some 4), 1)"
proof -
  have b: "bad_vbDecl undeclaredPart" "bad_vbDecl oversizedPart" "\<not> bad_vbDecl opaquePart"
    by (simp_all add: bad_vbDecl_def undeclaredPart_def oversizedPart_def opaquePart_def
          D3D11_IA_VERTEX_INPUT_STRUCTURE_ELEMENT_COUNT_def)
  show ?thesis
    using b
      CreateInputLayout_InvalidConfiguration [of acceptingDevice False undeclaredPart 0
        "Some basicEffect" "Some (Some 8)"]
      CreateInputLayout_InvalidConfiguration [of acceptingDevice False oversizedPart 0
        "Some basicEffect" "Some (Some 8)"]
      CreateInputLayout_InvalidConfiguration [of acceptingDevice False opaquePart 0
        "Some basicEffect" "Some (Some 8)"]
    by (simp add: ModelMeshPart_CreateInputLayout_def Let_def undeclaredPart_def oversizedPart_def
          opaquePart_def acceptingDevice_def D3D11_IA_VERTEX_INPUT_STRUCTURE_ELEMENT_COUNT_def)
qed

text \<open>
  C9. \<open>ModelMeshPart::ModifyEffect\<close> on a part whose vertex-layout descriptor is absent,
  empty or longer than the limit fails with an \<open>InvalidConfiguration\<close> error and has
  changed nothing: the part, with its effect, its translucency flag and its input layout,
  and the device are as they were.
\<close>

theorem ModifyEffect_checks_before_mutation:
  assumes "bad_vbDecl part"
  shows "\<exists>err. InvalidConfiguration err \<and>
           ModelMeshPart_ModifyEffect create ndebug part d3dDevice ieffect isalpha =
             (Some err, part, d3dDevice)"
  using assms
  by (auto simp: bad_vbDecl_def ModelMeshPart_ModifyEffect_def InvalidConfiguration_def
        split: option.splits)

text \<open>
  The part without descriptor keeps its effect and its flag when asked to take the skinned
  effect as a translucent part.
\<close>

theorem ModifyEffect_checks_before_mutation_witness:
  "bad_vbDecl undeclaredPart
   \<and> ModelMeshPart_ModifyEffect acceptingDevice False undeclaredPart 0 (Some skinnedEffect) True =
       (Some (runtime_error ''Model mesh part missing vertex buffer input elements data''),
        undeclaredPart, 0)
   \<and> effect undeclaredPart = Some basicEffect \<and> isAlpha undeclaredPart = False
   \<and> inputLayout undeclaredPart = Some 1"
proof -
  have b: "bad_vbDecl undeclaredPart"
    by (simp add: bad_vbDecl_def undeclaredPart_def)
  show ?thesis
    using b ModifyEffect_checks_before_mutation [OF b, of acceptingDevice False 0
        "Some skinnedEffect" True]
    by (simp add: ModelMeshPart_ModifyEffect_def undeclaredPart_def opaquePart_def)
qed

section \<open>The shader permutation of the tone map\<close>

text \<open>The setters keep the operator and the transfer function within their ranges.\<close>

lemma SetOperator_range:
  "SetOperator v impl = Inr impl' \<Longrightarrow>
   0 \<le> op impl' \<and> op impl' < Operator_Max \<and> func impl' = func impl"
  by (auto simp: SetOperator_def split: if_splits)

lemma SetTransferFunction_range:
  "SetTransferFunction v impl = Inr impl' \<Longrightarrow>
   0 \<le> func impl' \<and> func impl' < TransferFunction_Max \<and> op impl' = op impl"
  by (auto simp: SetTransferFunction_def SetConstants_def split: if_splits)

lemma Impl_init_range:
  "0 \<le> op Impl_init \<and> op Impl_init < Operator_Max \<and>
   0 \<le> func Impl_init \<and> func Impl_init < TransferFunction_Max"
  by (simp add: Impl_init_def Operator_None_def Linear_def Operator_Max_def
        TransferFunction_Max_def)

lemma pixelShaderIndices_entries:
  "0 \<le> k \<Longrightarrow> k < ShaderPermutationCount xbox \<Longrightarrow>
   0 \<le> pixelShaderIndices xbox ! nat k \<and> pixelShaderIndices xbox ! nat k < PixelShaderCount xbox"
proof -
  assume "0 \<le> k" and "k < ShaderPermutationCount xbox"
  then have "nat k < (if xbox then 24 else 12)"
    by (simp add: ShaderPermutationCount_def split: if_splits)
  then have "nat k \<in> set [0..<(if xbox then 24 else 12)]"
    by simp
  then show ?thesis
    by (cases xbox)
       (auto simp: pixelShaderIndices_def PixelShaderCount_def upt_rec [of _ "numeral _"])
qed

text \<open>
  C10. When the operator lies in \<open>[0, Operator_Max)\<close> and the transfer function in
  \<open>[0, TransferFunction_Max)\<close>, in either build configuration and whatever the MRT flag,
  \<open>GetCurrentShaderPermutation\<close> lies in \<open>[0, ShaderPermutationCount)\<close>, which is the
  length of \<open>pixelShaderIndices\<close>; the entry found there lies in \<open>[0, PixelShaderCount)\<close>,
  which is the length of \<open>pixelShaders\<close>; so both lookups of \<open>GetPixelShader\<close> are within
  their tables and it yields the shader of that entry.
\<close>

theorem shader_permutation_in_bounds:
  assumes "0 \<le> op impl" and "op impl < Operator_Max"
    and "0 \<le> func impl" and "func impl < TransferFunction_Max"
  shows "0 \<le> GetCurrentShaderPermutation xbox impl
       \<and> GetCurrentShaderPermutation xbox impl < ShaderPermutationCount xbox
       \<and> ShaderPermutationCount xbox = int (length (pixelShaderIndices xbox))
       \<and> 0 \<le> pixelShaderIndices xbox ! nat (GetCurrentShaderPermutation xbox impl)
       \<and> pixelShaderIndices xbox ! nat (GetCurrentShaderPermutation xbox impl) < PixelShaderCount xbox
       \<and> PixelShaderCount xbox = int (length (pixelShaders xbox))
       \<and> GetPixelShader xbox ndebug (GetCurrentShaderPermutation xbox impl) =
           Inr (pixelShaders xbox
                  ! nat (pixelShaderIndices xbox ! nat (GetCurrentShaderPermutation xbox impl)))"
proof -
  have lo: "0 \<le> GetCurrentShaderPermutation xbox impl"
    using assms by (simp add: GetCurrentShaderPermutation_def Operator_Max_def)
  have hi: "GetCurrentShaderPermutation xbox impl < ShaderPermutationCount xbox"
    using assms
    by (simp add: GetCurrentShaderPermutation_def ShaderPermutationCount_def Operator_Max_def
          TransferFunction_Max_def)
  have n1: "ShaderPermutationCount xbox = int (length (pixelShaderIndices xbox))"
    by (simp add: ShaderPermutationCount_def pixelShaderIndices_def)
  have n2: "PixelShaderCount xbox = int (length (pixelShaders xbox))"
    by (simp add: PixelShaderCount_def pixelShaders_def)
  note e = pixelShaderIndices_entries [OF lo hi]
  have g: "GetPixelShader xbox ndebug (GetCurrentShaderPermutation xbox impl) =
           Inr (pixelShaders xbox
                  ! nat (pixelShaderIndices xbox ! nat (GetCurrentShaderPermutation xbox impl)))"
    using lo hi e
    by (simp add: GetPixelShader_def Let_def n1 [symmetric] n2 [symmetric])
  show ?thesis
    using lo hi n1 n2 e g by simp
qed

text \<open>
  The last operator with the last transfer function: permutation 11 and the HDR10 shader
  in the desktop build, permutation 23 and the HDR10 saturate shader with MRT output on
  the console build.
\<close>

theorem shader_permutation_in_bounds_witness:
  "0 \<le> op lastPermutation \<and> op lastPermutation < Operator_Max
   \<and> 0 \<le> func lastPermutation \<and> func lastPermutation < TransferFunction_Max
   \<and> GetCurrentShaderPermutation False lastPermutation = 11
   \<and> ShaderPermutationCount False = 12
   \<and> GetPixelShader False False (GetCurrentShaderPermutation False lastPermutation) =
       Inr ''ToneMap_PSHDR10''
   \<and> GetCurrentShaderPermutation True lastPermutation = 23
   \<and> ShaderPermutationCount True = 24
   \<and> GetPixelShader True False (GetCurrentShaderPermutation True lastPermutation) =
       Inr ''ToneMap_PSHDR10_Saturate''"
proof -
  have h: "0 \<le> op lastPermutation" "op lastPermutation < Operator_Max"
    "0 \<le> func lastPermutation" "func lastPermutation < TransferFunction_Max"
    by (simp_all add: lastPermutation_def Impl_init_def Operator_Max_def TransferFunction_Max_def)
  have p: "GetCurrentShaderPermutation False lastPermutation = 11"
    "GetCurrentShaderPermutation True lastPermutation = 23"
    by (simp_all add: GetCurrentShaderPermutation_def lastPermutation_def Impl_init_def
          Operator_Max_def)
  show ?thesis
    using h shader_permutation_in_bounds [OF h, of False False]
      shader_permutation_in_bounds [OF h, of True False]
    by (simp add: p ShaderPermutationCount_def pixelShaderIndices_def pixelShaders_def)
qed

end
